theory Spec2Isabelle
  imports Complex_Main
begin

section \<open>JavaScript numbers\<close>

text \<open>
  A JavaScript number is an IEEE 754 double: NaN, an infinity, negative zero, or a
  finite value, which is kept as the rational it stands for (\<open>Fin 0\<close> is positive
  zero). An arithmetic operation takes the exact result and rounds it to the nearest
  double, ties going to the even significand; a result of magnitude \<open>2^1024\<close> or more
  after rounding is an infinity, and a non-zero result that rounds to nothing is a zero of
  the same sign.
\<close>

datatype jsnum = NaN | Fin rat | NegZero | PInf | NInf

fun isZero :: "jsnum \<Rightarrow> bool" where
  "isZero (Fin a) = (a = 0)"
| "isZero NegZero = True"
| "isZero _ = False"

fun isInfinite :: "jsnum \<Rightarrow> bool" where
  "isInfinite PInf = True"
| "isInfinite NInf = True"
| "isInfinite _ = False"

text \<open>The sign bit, and the value of a finite number.\<close>

fun isNegative :: "jsnum \<Rightarrow> bool" where
  "isNegative (Fin a) = (a < 0)"
| "isNegative NegZero = True"
| "isNegative NInf = True"
| "isNegative _ = False"

fun numValue :: "jsnum \<Rightarrow> rat" where
  "numValue (Fin a) = a"
| "numValue _ = 0"

definition signedZero :: "bool \<Rightarrow> jsnum" where
  "signedZero negative = (if negative then NegZero else Fin 0)"

definition signedInfinity :: "bool \<Rightarrow> jsnum" where
  "signedInfinity negative = (if negative then NInf else PInf)"

subsection \<open>Rounding to the nearest double\<close>

text \<open>
  The number of binary digits of a positive integer, counted 64 at a time while the
  integer is large.
\<close>

function bitLength :: "int \<Rightarrow> int" where
  "bitLength n =
     (if n \<le> 0 then 0
      else if 2 ^ 64 \<le> n then 64 + bitLength (n div 2 ^ 64)
      else 1 + bitLength (n div 2))"
  by pat_completeness auto
termination
  by (relation "measure nat") auto

declare bitLength.simps [simp del]

definition pow2 :: "int \<Rightarrow> rat" where
  "pow2 k = (if 0 \<le> k then 2 ^ nat k else 1 / 2 ^ nat (- k))"

text \<open>
  The binary exponent of the positive fraction \<open>n / d\<close>: the \<open>e\<close> with
  \<open>2^e \<le> n / d < 2^(e + 1)\<close>. The difference of the bit lengths is \<open>e\<close> or \<open>e + 1\<close>.
\<close>

definition binaryExponent :: "int \<Rightarrow> int \<Rightarrow> int" where
  "binaryExponent n d =
     (let k = bitLength n - bitLength d
      in if d * 2 ^ nat k \<le> n * 2 ^ nat (- k) then k else k - 1)"

text \<open>The integer nearest to \<open>n / d\<close>, the even one of two that are equally near.\<close>

definition roundHalfEven :: "int \<Rightarrow> int \<Rightarrow> int" where
  "roundHalfEven n d =
     (let f = n div d; r = n mod d
      in if 2 * r < d then f else if d < 2 * r then f + 1 else if even f then f else f + 1)"

text \<open>
  The double nearest to the positive fraction \<open>n / d\<close>, with the given sign. The
  significand has 53 binary digits, fewer below the exponent \<open>-1022\<close>; it is the
  fraction divided by \<open>2^(e - 52)\<close> and rounded.
\<close>

definition roundFraction :: "bool \<Rightarrow> int \<Rightarrow> int \<Rightarrow> jsnum" where
  "roundFraction negative n d =
     (let e = max (binaryExponent n d) (- 1022)
      in if 1023 < e then signedInfinity negative
         else let m = roundHalfEven (n * 2 ^ nat (52 - e)) (d * 2 ^ nat (e - 52))
              in if e = 1023 \<and> m = 2 ^ 53 then signedInfinity negative
                 else if m = 0 then signedZero negative
                 else Fin ((if negative then - 1 else 1) * of_int m * pow2 (e - 52)))"

definition roundDouble :: "rat \<Rightarrow> jsnum" where
  "roundDouble q =
     (if q = 0 then Fin 0
      else roundFraction (q < 0) (fst (quotient_of \<bar>q\<bar>)) (snd (quotient_of \<bar>q\<bar>)))"

subsection \<open>Arithmetic and comparison\<close>

fun jsadd :: "jsnum \<Rightarrow> jsnum \<Rightarrow> jsnum" where
  "jsadd NaN _ = NaN"
| "jsadd _ NaN = NaN"
| "jsadd PInf NInf = NaN"
| "jsadd NInf PInf = NaN"
| "jsadd PInf _ = PInf"
| "jsadd _ PInf = PInf"
| "jsadd NInf _ = NInf"
| "jsadd _ NInf = NInf"
| "jsadd NegZero b = b"
| "jsadd a NegZero = a"
| "jsadd (Fin a) (Fin b) = roundDouble (a + b)"

fun jsneg :: "jsnum \<Rightarrow> jsnum" where
  "jsneg NaN = NaN"
| "jsneg (Fin a) = (if a = 0 then NegZero else Fin (- a))"
| "jsneg NegZero = Fin 0"
| "jsneg PInf = NInf"
| "jsneg NInf = PInf"

definition jssub :: "jsnum \<Rightarrow> jsnum \<Rightarrow> jsnum" where
  "jssub a b = jsadd a (jsneg b)"

text \<open>
  A product or quotient has the sign of its operands combined, a zero result included.
\<close>

definition jsmul :: "jsnum \<Rightarrow> jsnum \<Rightarrow> jsnum" where
  "jsmul a b =
     (if a = NaN \<or> b = NaN then NaN
      else if isInfinite a \<or> isInfinite b
        then (if isZero a \<or> isZero b then NaN
              else signedInfinity (isNegative a \<noteq> isNegative b))
      else if isZero a \<or> isZero b then signedZero (isNegative a \<noteq> isNegative b)
      else roundDouble (numValue a * numValue b))"

definition jsdiv :: "jsnum \<Rightarrow> jsnum \<Rightarrow> jsnum" where
  "jsdiv a b =
     (if a = NaN \<or> b = NaN then NaN
      else if isInfinite a
        then (if isInfinite b then NaN else signedInfinity (isNegative a \<noteq> isNegative b))
      else if isInfinite b then signedZero (isNegative a \<noteq> isNegative b)
      else if isZero b
        then (if isZero a then NaN else signedInfinity (isNegative a \<noteq> isNegative b))
      else if isZero a then signedZero (isNegative a \<noteq> isNegative b)
      else roundDouble (numValue a / numValue b))"

fun jslt :: "jsnum \<Rightarrow> jsnum \<Rightarrow> bool" where
  "jslt NaN _ = False"
| "jslt _ NaN = False"
| "jslt _ NInf = False"
| "jslt NInf _ = True"
| "jslt PInf _ = False"
| "jslt _ PInf = True"
| "jslt a b = (numValue a < numValue b)"

definition jsgt :: "jsnum \<Rightarrow> jsnum \<Rightarrow> bool" where
  "jsgt a b = jslt b a"

definition jsle :: "jsnum \<Rightarrow> jsnum \<Rightarrow> bool" where
  "jsle a b = (a \<noteq> NaN \<and> b \<noteq> NaN \<and> \<not> jslt b a)"

definition jsge :: "jsnum \<Rightarrow> jsnum \<Rightarrow> bool" where
  "jsge a b = jsle b a"

text \<open>
  \<open>===\<close> on two numbers: NaN is equal to nothing, itself included, and the two zeros
  are equal.
\<close>

definition numStrictEquals :: "jsnum \<Rightarrow> jsnum \<Rightarrow> bool" where
  "numStrictEquals a b = (a \<noteq> NaN \<and> b \<noteq> NaN \<and> (a = b \<or> (isZero a \<and> isZero b)))"

text \<open>A number in a condition position: the zeros and NaN are falsy.\<close>

definition numTruthy :: "jsnum \<Rightarrow> bool" where
  "numTruthy a = (a \<noteq> NaN \<and> \<not> isZero a)"

text \<open>
  \<open>Math.max(...xs)\<close> and \<open>Math.min(...xs)\<close>: NaN if any argument is NaN; positive
  zero counts as larger than negative zero.
\<close>

definition jsmax2 :: "jsnum \<Rightarrow> jsnum \<Rightarrow> jsnum" where
  "jsmax2 a b =
     (if a = NaN \<or> b = NaN then NaN
      else if jslt a b then b else if jslt b a then a
      else if a = NegZero then b else a)"

definition jsmin2 :: "jsnum \<Rightarrow> jsnum \<Rightarrow> jsnum" where
  "jsmin2 a b =
     (if a = NaN \<or> b = NaN then NaN
      else if jslt b a then b else if jslt a b then a
      else if a = NegZero then a else b)"

definition mathMax :: "jsnum list \<Rightarrow> jsnum" where
  "mathMax xs = foldl jsmax2 NInf xs"

definition mathMin :: "jsnum list \<Rightarrow> jsnum" where
  "mathMin xs = foldl jsmin2 PInf xs"

section \<open>Array slices\<close>

text \<open>
  \<open>xs.slice(-n)\<close> for a non-negative integer \<open>n\<close>: the last \<open>n\<close> elements, or all of
  them when there are fewer. For \<open>n = 0\<close> the argument is \<open>-0\<close>, that is \<open>0\<close>, and
  the slice is the whole array.
\<close>

definition sliceLast :: "nat \<Rightarrow> 'a list \<Rightarrow> 'a list" where
  "sliceLast n xs = (if n = 0 then xs else drop (length xs - n) xs)"

text \<open>
  \<open>xs.slice(-a, -b)\<close> for positive \<open>b\<close>: from index \<open>max (len - a) 0\<close> up to, not
  including, index \<open>max (len - b) 0\<close>.
\<close>

definition sliceBetween :: "nat \<Rightarrow> nat \<Rightarrow> 'a list \<Rightarrow> 'a list" where
  "sliceBetween a b xs =
     (let start = length xs - a; stop = length xs - b
      in take (stop - start) (drop start xs))"

section \<open>Helper functions of the trend server\<close>

text \<open>
  \<open>calculateSMA(prices, period)\<close>: null (here \<open>None\<close>) for a series shorter than the
  period, otherwise the sum of \<open>prices.slice(-period)\<close>, accumulated from 0 from left to
  right, divided by the period; every addition and the division round. The period is a
  natural number that is a double, as every integer below \<open>2^53\<close> is.
\<close>

definition calculateSMA :: "jsnum list \<Rightarrow> nat \<Rightarrow> jsnum option" where
  "calculateSMA prices period =
     (if length prices < period then None
      else let slice = sliceLast period prices
           in Some (jsdiv (foldl jsadd (Fin 0) slice) (Fin (of_nat period))))"

text \<open>
  A nullable number as an operand of \<open>*\<close>, \<open><\<close> or \<open>>\<close>: null counts as 0. A
  decimal literal of the source, such as \<open>1.02\<close>, denotes the double nearest to it.
\<close>

definition nullableToNumber :: "jsnum option \<Rightarrow> jsnum" where
  "nullableToNumber m = (case m of None \<Rightarrow> Fin 0 | Some x \<Rightarrow> x)"

definition calculateTrend :: "jsnum list \<Rightarrow> nat \<Rightarrow> string" where
  "calculateTrend prices period =
     (if length prices < period + 5 then ''unknown''
      else let recentMA = calculateSMA (sliceLast 5 prices) 5;
               olderMA = calculateSMA (sliceBetween (period + 5) 5 prices) 5
           in if jsgt (nullableToNumber recentMA)
                      (jsmul (nullableToNumber olderMA) (roundDouble 1.02)) then ''up''
              else if jslt (nullableToNumber recentMA)
                      (jsmul (nullableToNumber olderMA) (roundDouble 0.98)) then ''down''
              else ''sideways'')"

section \<open>JavaScript values\<close>

text \<open>
  The values that occur in JSON bodies and in the records built from them. \<open>JBuiltin\<close>
  stands for an object of the engine itself (a method inherited from
  \<open>Object.prototype\<close>, or that prototype), identified by its name.
\<close>

datatype jsval =
    JUndefined
  | JNull
  | JBool bool
  | JNum jsnum
  | JStr string
  | JArr "jsval list"
  | JObj "(string \<times> jsval) list"
  | JBuiltin string

fun truthy :: "jsval \<Rightarrow> bool" where
  "truthy JUndefined = False"
| "truthy JNull = False"
| "truthy (JBool b) = b"
| "truthy (JNum x) = numTruthy x"
| "truthy (JStr s) = (s \<noteq> [])"
| "truthy (JArr xs) = True"
| "truthy (JObj kvs) = True"
| "truthy (JBuiltin n) = True"

text \<open>
  \<open>a === b\<close>. Arrays and objects are compared by identity; the two operands of every
  \<open>===\<close> in the program come from different places (a record and the request, or a
  response and a literal), so two arrays or objects are never the same one.
\<close>

fun strictEquals :: "jsval \<Rightarrow> jsval \<Rightarrow> bool" where
  "strictEquals JUndefined JUndefined = True"
| "strictEquals JNull JNull = True"
| "strictEquals (JBool a) (JBool b) = (a = b)"
| "strictEquals (JNum a) (JNum b) = numStrictEquals a b"
| "strictEquals (JStr a) (JStr b) = (a = b)"
| "strictEquals (JBuiltin a) (JBuiltin b) = (a = b)"
| "strictEquals _ _ = False"

text \<open>\<open>xs.includes(v)\<close> compares with SameValueZero: as \<open>===\<close>, but NaN equals NaN.\<close>

fun sameValueZero :: "jsval \<Rightarrow> jsval \<Rightarrow> bool" where
  "sameValueZero (JNum a) (JNum b) = (a = b \<or> (isZero a \<and> isZero b))"
| "sameValueZero a b = strictEquals a b"

definition arrayIncludes :: "jsval list \<Rightarrow> jsval \<Rightarrow> bool" where
  "arrayIncludes xs v = list_ex (\<lambda>x. sameValueZero x v) xs"

text \<open>
  What belongs to the engine and not to the program is a parameter: \<open>Number(s)\<close> on a
  string; the conversion of an array to a number, which goes through the array's string
  form and can throw; \<open>x.toFixed(digits)\<close>; and the number of arguments a call can
  spread. Every theorem below holds for every engine.
\<close>

record engine =
  stringToNumber :: "string \<Rightarrow> jsnum"
  arrayToNumber :: "jsval list \<Rightarrow> jsnum"
  arrayThrows :: "jsval list \<Rightarrow> bool"
  toFixed :: "jsnum \<Rightarrow> nat \<Rightarrow> string"
  spreadLimit :: nat

text \<open>
  Converting a value to a number (\<open>Number(v)\<close>, or \<open>v\<close> as an operand of \<open>-\<close>,
  \<open>*\<close>, \<open>/\<close>, \<open><\<close>, \<open>>\<close>) first makes an object primitive, by its \<open>valueOf\<close>
  and then its \<open>toString\<close>. An object parsed from JSON inherits both from
  \<open>Object.prototype\<close> and becomes the string \<open>[object Object]\<close>, which is NaN, unless
  it has a property \<open>toString\<close> of its own: that property is not a function, no method
  yields a primitive, and the conversion throws a TypeError.
\<close>

fun conversionThrows :: "engine \<Rightarrow> jsval \<Rightarrow> bool" where
  "conversionThrows E (JObj kvs) = (''toString'' \<in> set (map fst kvs))"
| "conversionThrows E (JArr xs) = arrayThrows E xs"
| "conversionThrows E v = False"

text \<open>
  The number a value converts to when the conversion does not throw. (The condition
  engine below calls \<open>Number\<close> on request values without a guard of its own; a throw
  there ends the request with the handler's error answer instead of a result. That case
  is not represented: the responses modelled as successful include all that really are.)
\<close>

fun toNumber :: "engine \<Rightarrow> jsval \<Rightarrow> jsnum" where
  "toNumber E JUndefined = NaN"
| "toNumber E JNull = Fin 0"
| "toNumber E (JBool b) = (if b then Fin 1 else Fin 0)"
| "toNumber E (JNum x) = x"
| "toNumber E (JStr s) = stringToNumber E s"
| "toNumber E (JArr xs) = arrayToNumber E xs"
| "toNumber E (JObj kvs) = NaN"
| "toNumber E (JBuiltin n) = NaN"

definition ofNullable :: "jsnum option \<Rightarrow> jsval" where
  "ofNullable m = (case m of None \<Rightarrow> JNull | Some x \<Rightarrow> JNum x)"

definition nullableTruthy :: "jsnum option \<Rightarrow> bool" where
  "nullableTruthy m = (case m of None \<Rightarrow> False | Some x \<Rightarrow> numTruthy x)"

subsection \<open>Objects\<close>

text \<open>
  An object literal is the list of its properties in source order. Reading a property
  that the object does not own falls back to \<open>Object.prototype\<close>, and to undefined
  when the name is not there either.
\<close>

type_synonym item = "(string \<times> jsval) list"

definition objectPrototype :: "string \<Rightarrow> jsval option" where
  "objectPrototype k =
     (if k \<in> set [''constructor'', ''hasOwnProperty'', ''isPrototypeOf'',
                   ''propertyIsEnumerable'', ''toLocaleString'', ''toString'', ''valueOf'',
                   ''__defineGetter__'', ''__defineSetter__'', ''__lookupGetter__'',
                   ''__lookupSetter__'', ''__proto__'']
      then Some (JBuiltin k) else None)"

definition getField :: "item \<Rightarrow> string \<Rightarrow> jsval" where
  "getField obj k =
     (case map_of obj k of
        Some v \<Rightarrow> v
      | None \<Rightarrow> (case objectPrototype k of Some b \<Rightarrow> b | None \<Rightarrow> JUndefined))"

text \<open>
  \<open>q.k\<close> on a response body of any shape. The program reads only the names
  \<open>c\<close>, \<open>o\<close>, \<open>h\<close>, \<open>l\<close> and \<open>pc\<close>, which a value that is not an object does not
  have, and only after \<open>!q\<close> has excluded null and undefined.
\<close>

fun getProp :: "jsval \<Rightarrow> string \<Rightarrow> jsval" where
  "getProp (JObj kvs) k = getField kvs k"
| "getProp v k = JUndefined"

section \<open>The outside world\<close>

text \<open>
  A request to the provider either throws or returns a body. The quote body is any JSON
  value; the candle body is absent (a falsy body) or carries a status \<open>s\<close> and optional
  arrays of numbers \<open>c\<close> (closes) and \<open>v\<close> (volumes), the shape the provider
  documents. A candle body of another shape is not represented. Symbols are strings.
\<close>

datatype 'a outcome = Threw | Returned 'a

record candles =
  candle_s :: jsval
  candle_c :: "jsnum list option"
  candle_v :: "jsnum list option"

record world =
  quoteGet :: "string \<Rightarrow> jsval outcome"
  candleGet :: "string \<Rightarrow> candles option outcome"

datatype request = QuoteRequest string | CandleRequest string

section \<open>The trend server: enrichment\<close>

text \<open>
  The weekly series of \<open>getStockDataWithTrend\<close>:
  \<^verbatim>\<open>for (let i = 0; i < closePrices.length; i += 5) weeklyPrices.push(closePrices[i])\<close>.
\<close>

function weeklyLoop :: "jsnum list \<Rightarrow> nat \<Rightarrow> jsnum list \<Rightarrow> jsnum list" where
  "weeklyLoop closePrices i weeklyPrices =
     (if i < length closePrices
      then weeklyLoop closePrices (i + 5) (weeklyPrices @ [closePrices ! i])
      else weeklyPrices)"
  by pat_completeness auto
termination
  by (relation "measure (\<lambda>(closePrices, i, weeklyPrices). length closePrices - i)") auto

declare weeklyLoop.simps [simp del]

text \<open>
  The close prices when
  \<^verbatim>\<open>candles && candles.s === "ok" && candles.c && candles.c.length > 0\<close> holds.
\<close>

definition usableCloses :: "candles option \<Rightarrow> jsnum list option" where
  "usableCloses candles =
     (case candles of
        None \<Rightarrow> None
      | Some cd \<Rightarrow>
          if strictEquals (candle_s cd) (JStr ''ok'')
          then (case candle_c cd of
                  None \<Rightarrow> None
                | Some cp \<Rightarrow> if 0 < length cp then Some cp else None)
          else None)"

text \<open>The volumes when \<^verbatim>\<open>candles && candles.v && candles.v.length > 0\<close> holds.\<close>

definition usableVolumes :: "candles option \<Rightarrow> jsnum list option" where
  "usableVolumes candles =
     (case candles of
        None \<Rightarrow> None
      | Some cd \<Rightarrow>
          (case candle_v cd of
             None \<Rightarrow> None
           | Some v \<Rightarrow> if 0 < length v then Some v else None))"

text \<open>\<^verbatim>\<open>ma ? quote.c > ma : null\<close>\<close>

definition aboveMA :: "engine \<Rightarrow> jsval \<Rightarrow> jsnum option \<Rightarrow> jsval" where
  "aboveMA E qc ma =
     (if nullableTruthy ma then JBool (jsgt (toNumber E qc) (nullableToNumber ma)) else JNull)"

text \<open>\<^verbatim>\<open>ma ? ma.toFixed(2) : null\<close>\<close>

definition fixedMA :: "engine \<Rightarrow> jsnum option \<Rightarrow> jsval" where
  "fixedMA E ma =
     (if nullableTruthy ma then JStr (toFixed E (nullableToNumber ma) 2) else JNull)"

definition trendEtfSymbols :: "string list" where
  "trendEtfSymbols =
     [''SPY'', ''QQQ'', ''IWM'', ''DIA'', ''XLF'', ''XLE'', ''XLK'', ''XLV'', ''XLI'', ''XLP'',
      ''XLY'', ''XLB'', ''XLU'', ''XLRE'', ''XLC'', ''VTI'', ''VOO'', ''EWG'', ''EWQ'', ''FEZ'',
      ''VGK'']"

text \<open>
  The record that \<open>getStockDataWithTrend\<close> returns once both responses are in: the
  statements after the candle request, in source order.
\<close>

definition trendRecord :: "engine \<Rightarrow> string \<Rightarrow> jsval \<Rightarrow> candles option \<Rightarrow> item" where
  "trendRecord E symbol quote candles =
     (let closePrices = usableCloses candles;
          ma20 = (case closePrices of None \<Rightarrow> None | Some cp \<Rightarrow> calculateSMA cp 20);
          ma50 = (case closePrices of None \<Rightarrow> None | Some cp \<Rightarrow> calculateSMA cp 50);
          ma200 = (case closePrices of None \<Rightarrow> None | Some cp \<Rightarrow> calculateSMA cp 200);
          dailyTrend =
            (case closePrices of None \<Rightarrow> ''unknown'' | Some cp \<Rightarrow> calculateTrend cp 20);
          weeklyTrend =
            (case closePrices of
               None \<Rightarrow> ''unknown''
             | Some cp \<Rightarrow>
                 if 25 \<le> length cp then calculateTrend (weeklyLoop cp 0 []) 4
                 else ''unknown'');
          aboveMA20 =
            (case closePrices of None \<Rightarrow> JNull | Some cp \<Rightarrow> aboveMA E (getProp quote ''c'') ma20);
          aboveMA50 =
            (case closePrices of None \<Rightarrow> JNull | Some cp \<Rightarrow> aboveMA E (getProp quote ''c'') ma50);
          aboveMA200 =
            (case closePrices of None \<Rightarrow> JNull | Some cp \<Rightarrow> aboveMA E (getProp quote ''c'') ma200);
          week52High = (case closePrices of None \<Rightarrow> None | Some cp \<Rightarrow> Some (mathMax cp));
          week52Low = (case closePrices of None \<Rightarrow> None | Some cp \<Rightarrow> Some (mathMin cp));
          volume = (case usableVolumes candles of None \<Rightarrow> None | Some v \<Rightarrow> Some (last v));
          avgVolume = (case usableVolumes candles of None \<Rightarrow> None | Some v \<Rightarrow> calculateSMA v 20);
          close = getProp quote ''c'';
          pc = getProp quote ''pc''
      in [(''symbol'', JStr symbol),
          (''close'', close),
          (''open'', getProp quote ''o''),
          (''high'', getProp quote ''h''),
          (''low'', getProp quote ''l''),
          (''prevClose'', pc),
          (''change'', JNum (jssub (toNumber E close) (toNumber E pc))),
          (''changePercent'',
             if truthy pc
             then JStr (toFixed E
                    (jsmul (jsdiv (jssub (toNumber E close) (toNumber E pc)) (toNumber E pc))
                           (Fin 100)) 2)
             else JNum (Fin 0)),
          (''volume'', ofNullable volume),
          (''avgVolume'', ofNullable avgVolume),
          (''volumeRatio'',
             if nullableTruthy avgVolume
             then JStr (toFixed E
                    (jsdiv (nullableToNumber volume) (nullableToNumber avgVolume)) 2)
             else JNull),
          (''volumeContraction'',
             if nullableTruthy avgVolume
             then JBool (jslt (nullableToNumber volume)
                              (jsmul (nullableToNumber avgVolume) (roundDouble 0.7)))
             else JNull),
          (''week52High'', ofNullable week52High),
          (''week52Low'', ofNullable week52Low),
          (''pctFrom52High'',
             if nullableTruthy week52High
             then JStr (toFixed E
                    (jsmul (jsdiv (toNumber E close) (nullableToNumber week52High)) (Fin 100)) 1)
             else JNull),
          (''pctFrom52Low'',
             if nullableTruthy week52Low
             then JStr (toFixed E
                    (jsmul (jssub (jsdiv (toNumber E close) (nullableToNumber week52Low)) (Fin 1))
                           (Fin 100)) 1)
             else JNull),
          (''nearWeek52High'',
             if nullableTruthy week52High
             then JBool (jsge (toNumber E close)
                              (jsmul (nullableToNumber week52High) (roundDouble 0.95)))
             else JNull),
          (''nearWeek52Low'',
             if nullableTruthy week52Low
             then JBool (jsle (toNumber E close)
                              (jsmul (nullableToNumber week52Low) (roundDouble 1.05)))
             else JNull),
          (''ma20'', fixedMA E ma20),
          (''ma50'', fixedMA E ma50),
          (''ma200'', fixedMA E ma200),
          (''aboveMA20'', aboveMA20),
          (''aboveMA50'', aboveMA50),
          (''aboveMA200'', aboveMA200),
          (''dailyTrend'', JStr dailyTrend),
          (''weeklyTrend'', JStr weeklyTrend),
          (''trendAlignment'',
             JStr (if dailyTrend = ''up'' \<and> weeklyTrend = ''up'' then ''bullish''
                   else if dailyTrend = ''down'' \<and> weeklyTrend = ''down'' then ''bearish''
                   else ''mixed'')),
          (''currency'', JStr ''USD''),
          (''is_etf'', JBool (symbol \<in> set trendEtfSymbols)),
          (''tradable_on_t212_cfd'', JBool True),
          (''name'', JStr symbol)])"

text \<open>
  The guard on the quote body:
  \<^verbatim>\<open>!quote || quote.c === 0 || quote.c === null\<close>.
\<close>

definition noQuoteData :: "jsval \<Rightarrow> bool" where
  "noQuoteData quote =
     (\<not> truthy quote \<or> strictEquals (getProp quote ''c'') (JNum (Fin 0))
        \<or> strictEquals (getProp quote ''c'') JNull)"

text \<open>
  The statements after the candle request that can throw: \<open>Math.max(...closePrices)\<close>
  and \<open>Math.min(...closePrices)\<close>, when the close prices are more than a call can
  spread, and the conversions of \<open>quote.c\<close> and \<open>quote.pc\<close> to numbers, which
  \<open>close - quote.pc\<close> performs for every quote.
\<close>

definition trendRecordThrows :: "engine \<Rightarrow> jsval \<Rightarrow> candles option \<Rightarrow> bool" where
  "trendRecordThrows E quote candles =
     ((case usableCloses candles of None \<Rightarrow> False | Some cp \<Rightarrow> spreadLimit E < length cp)
      \<or> conversionThrows E (getProp quote ''c'')
      \<or> conversionThrows E (getProp quote ''pc''))"

text \<open>
  \<open>getStockDataWithTrend(symbol)\<close>: the record or null, and the requests sent. Anything
  thrown inside, by a request or by a statement after it, is caught and gives null.
\<close>

definition getStockDataWithTrend :: "engine \<Rightarrow> world \<Rightarrow> string \<Rightarrow> item option \<times> request list" where
  "getStockDataWithTrend E W symbol =
     (case quoteGet W symbol of
        Threw \<Rightarrow> (None, [QuoteRequest symbol])
      | Returned quote \<Rightarrow>
          if noQuoteData quote then (None, [QuoteRequest symbol])
          else (case candleGet W symbol of
                  Threw \<Rightarrow> (None, [QuoteRequest symbol, CandleRequest symbol])
                | Returned candles \<Rightarrow>
                    if trendRecordThrows E quote candles
                    then (None, [QuoteRequest symbol, CandleRequest symbol])
                    else (Some (trendRecord E symbol quote candles),
                          [QuoteRequest symbol, CandleRequest symbol])))"

text \<open>
  \<open>getStockDataBatch(symbols)\<close>: one symbol after the other, in order; a record is
  pushed when one came back. The world may answer differently at every position of the
  batch. The pause between two symbols takes time and changes nothing else.
\<close>

function batchLoop ::
  "engine \<Rightarrow> (nat \<Rightarrow> world) \<Rightarrow> string list \<Rightarrow> nat \<Rightarrow> item list \<times> request list
     \<Rightarrow> item list \<times> request list" where
  "batchLoop E Ws symbols i acc =
     (if i < length symbols
      then (case getStockDataWithTrend E (Ws i) (symbols ! i) of
              (None, sent) \<Rightarrow> batchLoop E Ws symbols (i + 1) (fst acc, snd acc @ sent)
            | (Some data, sent) \<Rightarrow>
                batchLoop E Ws symbols (i + 1) (fst acc @ [data], snd acc @ sent))
      else acc)"
  by pat_completeness auto
termination
  by (relation "measure (\<lambda>(E, Ws, symbols, i, acc). length symbols - i)") auto

declare batchLoop.simps [simp del]

definition getStockDataBatch ::
  "engine \<Rightarrow> (nat \<Rightarrow> world) \<Rightarrow> string list \<Rightarrow> item list \<times> request list" where
  "getStockDataBatch E Ws symbols = batchLoop E Ws symbols 0 ([], [])"

section \<open>The trend server: conditions and the screen endpoint\<close>

record condition =
  left :: string
  operation :: string
  right :: jsval

text \<open>
  The function that \<open>applyConditions\<close> passes to \<open>conditions.every\<close>, for one record
  and one condition.
\<close>

definition evalCondition :: "engine \<Rightarrow> item \<Rightarrow> condition \<Rightarrow> bool" where
  "evalCondition E item c =
     (let l = getField item (left c)
      in if l = JUndefined \<or> l = JNull
         then (if left c \<in> set [''close'', ''open'', ''high'', ''low''] then False else True)
         else if operation c = ''equal'' then strictEquals l (right c)
         else if operation c = ''greater'' then jsgt (toNumber E l) (toNumber E (right c))
         else if operation c = ''less'' then jslt (toNumber E l) (toNumber E (right c))
         else if operation c = ''in''
           then (case right c of JArr xs \<Rightarrow> arrayIncludes xs l | _ \<Rightarrow> False)
         else if operation c = ''near''
           then (if left c = ''52_week_high''
                 then strictEquals (getField item ''nearWeek52High'') (JBool True)
                 else if left c = ''52_week_low''
                 then strictEquals (getField item ''nearWeek52Low'') (JBool True)
                 else False)
         else True)"

definition applyConditions :: "engine \<Rightarrow> item list \<Rightarrow> condition list \<Rightarrow> item list" where
  "applyConditions E universe conditions =
     (if length conditions = 0 then universe
      else filter (\<lambda>item. list_all (evalCondition E item) conditions) universe)"

text \<open>
  The body of a request: \<open>universe\<close> is \<open>None\<close> when it is not an array, \<open>conditions\<close>
  is \<open>None\<close> when it is missing (the handler then uses the empty list).
\<close>

record body =
  b_action :: jsval
  b_universe :: "string list option"
  b_conditions :: "condition list option"

record screeningResult =
  r_count :: nat
  r_universe_size :: nat
  r_screened_size :: nat
  r_valid_data :: nat
  r_note :: "string option"
  r_results :: "item list"

datatype response = BadRequest string | Success screeningResult

definition truncationNote :: string where
  "truncationNote =
     ''Limited to 25 stocks due to API rate limits. For more stocks, consider Finnhub premium.''"

text \<open>
  What the handler does with the batch output: apply the conditions and fill in the
  response (the statements after \<open>getStockDataBatch\<close> has returned).
\<close>

definition screenResponse ::
  "engine \<Rightarrow> string list \<Rightarrow> string list \<Rightarrow> item list \<Rightarrow> condition list option
     \<Rightarrow> screeningResult" where
  "screenResponse E universe limitedUniverse stockData conditions =
     (let results =
            applyConditions E stockData (case conditions of None \<Rightarrow> [] | Some cs \<Rightarrow> cs)
      in \<lparr>r_count = length results,
          r_universe_size = length universe,
          r_screened_size = length limitedUniverse,
          r_valid_data = length stockData,
          r_note = (if 25 < length universe then Some truncationNote else None),
          r_results = results\<rparr>)"

text \<open>
  The handler of \<open>POST /screen\<close>: the response and the requests sent to the provider.
  Nothing in the handler throws on a body of this type, so its catch-all answer is not
  among the responses.
\<close>

definition screen :: "engine \<Rightarrow> (nat \<Rightarrow> world) \<Rightarrow> body \<Rightarrow> response \<times> request list" where
  "screen E Ws req =
     (if \<not> strictEquals (b_action req) (JStr ''screen'')
      then (BadRequest ''Invalid action'', [])
      else (case b_universe req of
              None \<Rightarrow> (BadRequest ''Universe must be a non-empty array'', [])
            | Some universe \<Rightarrow>
                if length universe = 0
                then (BadRequest ''Universe must be a non-empty array'', [])
                else (let limitedUniverse = take 25 universe;
                          fetched = getStockDataBatch E Ws limitedUniverse
                      in (Success (screenResponse E universe limitedUniverse (fst fetched)
                                     (b_conditions req)),
                          snd fetched))))"

section \<open>The quote-only server: enrichment\<close>

definition finnhubEtfSymbols :: "string list" where
  "finnhubEtfSymbols =
     [''SPY'', ''QQQ'', ''IWM'', ''DIA'', ''XLF'', ''XLE'', ''XLK'', ''XLV'', ''XLI'', ''XLP'',
      ''XLY'', ''XLB'', ''XLU'', ''XLRE'', ''XLC'', ''VTI'', ''VOO'', ''VEA'', ''VWO'', ''BND'',
      ''GLD'', ''SLV'', ''USO'', ''TLT'', ''HYG'', ''LQD'', ''EEM'', ''EFA'', ''ARKK'', ''ARKG'']"

text \<open>
  \<open>getStockDataFinnhub(symbol)\<close> of the server without historical data: one request,
  the same guard, and a record with the fields that need history set to null. Here too a
  throw is caught and gives null; \<open>close - prevClose\<close> throws when one of its operands
  does not convert.
\<close>

definition getStockDataFinnhub :: "engine \<Rightarrow> world \<Rightarrow> string \<Rightarrow> item option" where
  "getStockDataFinnhub E W symbol =
     (case quoteGet W symbol of
        Threw \<Rightarrow> None
      | Returned quote \<Rightarrow>
          if noQuoteData quote then None
          else if conversionThrows E (getProp quote ''c'')
                  \<or> conversionThrows E (getProp quote ''pc'') then None
          else (let close = getProp quote ''c'';
                    open1 = getProp quote ''o'';
                    high = getProp quote ''h'';
                    low = getProp quote ''l'';
                    prevClose = getProp quote ''pc''
                in Some
                  [(''symbol'', JStr symbol),
                   (''close'', close),
                   (''open'', open1),
                   (''high'', high),
                   (''low'', low),
                   (''prevClose'', prevClose),
                   (''change'', JNum (jssub (toNumber E close) (toNumber E prevClose))),
                   (''changePercent'',
                      if truthy prevClose
                      then JStr (toFixed E
                             (jsmul (jsdiv (jssub (toNumber E close) (toNumber E prevClose))
                                           (toNumber E prevClose))
                                    (Fin 100)) 2)
                      else JNum (Fin 0)),
                   (''volume'', JNull),
                   (''avgVolume'', JNull),
                   (''week52High'', JNull),
                   (''week52Low'', JNull),
                   (''marketCap'', JNull),
                   (''currency'', JStr ''USD''),
                   (''is_etf'', JBool (length symbol \<le> 4 \<and> symbol \<in> set finnhubEtfSymbols)),
                   (''asset_type'', JStr ''equity''),
                   (''tradable_on_t212_cfd'', JBool True),
                   (''name'', JStr symbol)]))"

section \<open>The Yahoo server (server.js): conditions and the screen endpoint\<close>

text \<open>
  The guard of the fallback \<open>getStockDataFinnhub\<close> in \<open>server.js\<close> on the quote
  body: \<^verbatim>\<open>!quote || !quote.c\<close>.
\<close>

definition noQuoteDataFallback :: "jsval \<Rightarrow> bool" where
  "noQuoteDataFallback quote = (\<not> truthy quote \<or> \<not> truthy (getProp quote ''c''))"

text \<open>
  The function passed to \<open>conditions.every\<close> in \<open>server.js\<close>. Under \<open>near\<close> it
  returns the value of an \<open>&&\<close> chain, which \<open>every\<close> reads for its truthiness: the
  chain is truthy when each operand is.
\<close>

definition evalConditionYahoo :: "engine \<Rightarrow> item \<Rightarrow> condition \<Rightarrow> bool" where
  "evalConditionYahoo E item c =
     (let l = getField item (left c)
      in if l = JUndefined \<or> l = JNull
         then (if left c \<in> set [''volume'', ''close'', ''week52High'', ''week52Low'']
               then False else True)
         else if operation c = ''equal'' then strictEquals l (right c)
         else if operation c = ''greater'' then jsgt (toNumber E l) (toNumber E (right c))
         else if operation c = ''less'' then jslt (toNumber E l) (toNumber E (right c))
         else if operation c = ''in''
           then (case right c of JArr xs \<Rightarrow> arrayIncludes xs l | _ \<Rightarrow> False)
         else if operation c = ''near''
           then (if left c = ''52_week_high''
                 then truthy (getField item ''close'') \<and> truthy (getField item ''week52High'')
                      \<and> jsge (toNumber E (getField item ''close''))
                              (jsmul (toNumber E (getField item ''week52High'')) (roundDouble 0.95))
                 else if left c = ''52_week_low''
                 then truthy (getField item ''close'') \<and> truthy (getField item ''week52Low'')
                      \<and> jsle (toNumber E (getField item ''close''))
                              (jsmul (toNumber E (getField item ''week52Low'')) (roundDouble 1.05))
                 else False)
         else True)"

definition applyConditionsYahoo :: "engine \<Rightarrow> item list \<Rightarrow> condition list \<Rightarrow> item list" where
  "applyConditionsYahoo E universe conditions =
     (if length conditions = 0 then universe
      else filter (\<lambda>item. list_all (evalConditionYahoo E item) conditions) universe)"

text \<open>
  The batches of the handler in \<open>server.js\<close>:
  \<^verbatim>\<open>for (let i = 0; i < universe.length; i += batchSize)\<close> with
  \<open>getStockData(universe.slice(i, i + batchSize))\<close> appended each time, where
  \<open>batchSize\<close> is the constant 100. \<open>getStockData\<close>
  asks Yahoo for a whole batch and maps the answer to records, or returns the empty list;
  here it is any function from a batch to a list of records.
\<close>

function yahooLoop ::
  "(string list \<Rightarrow> item list) \<Rightarrow> string list \<Rightarrow> nat \<Rightarrow> item list \<Rightarrow> item list" where
  "yahooLoop getStockData universe i allStockData =
     (if i < length universe
      then yahooLoop getStockData universe (i + 100)
             (allStockData @ getStockData (take 100 (drop i universe)))
      else allStockData)"
  by pat_completeness auto
termination
  by (relation "measure (\<lambda>(g, universe, i, a). length universe - i)") auto

declare yahooLoop.simps [simp del]

record yahooResult =
  y_count :: nat
  y_universe_size :: nat
  y_valid_data :: nat
  y_results :: "item list"

datatype yahooResponse = YBadRequest string | YSuccess yahooResult

text \<open>The records the handler keeps: \<^verbatim>\<open>allStockData.filter((x) => x.close !== null)\<close>.\<close>

definition validYahoo :: "item list \<Rightarrow> item list" where
  "validYahoo allStockData =
     filter (\<lambda>x. \<not> strictEquals (getField x ''close'') JNull) allStockData"

definition screenYahoo :: "engine \<Rightarrow> (string list \<Rightarrow> item list) \<Rightarrow> body \<Rightarrow> yahooResponse" where
  "screenYahoo E getStockData req =
     (if \<not> strictEquals (b_action req) (JStr ''screen'')
      then YBadRequest ''Invalid action''
      else (case b_universe req of
              None \<Rightarrow> YBadRequest ''Universe must be a non-empty array''
            | Some universe \<Rightarrow>
                if length universe = 0
                then YBadRequest ''Universe must be a non-empty array''
                else (let allStockData = yahooLoop getStockData universe 0 [];
                          valid = validYahoo allStockData;
                          results = applyConditionsYahoo E valid
                            (case b_conditions req of None \<Rightarrow> [] | Some cs \<Rightarrow> cs)
                      in YSuccess \<lparr>y_count = length results,
                                   y_universe_size = length universe,
                                   y_valid_data = length valid,
                                   y_results = results\<rparr>)))"

section \<open>The specification's words\<close>

text \<open>The arithmetic mean of a list of exact numbers, and the last \<open>n\<close> elements of a list.\<close>

definition mean :: "rat list \<Rightarrow> rat" where
  "mean xs = sum_list xs / of_nat (length xs)"

definition lastPoints :: "nat \<Rightarrow> 'a list \<Rightarrow> 'a list" where
  "lastPoints n xs = drop (length xs - n) xs"

text \<open>
  A rational is representable when it is a double. The mean of a list is computed
  exactly when the sum of every prefix, taken from the left, is representable and the
  mean is.
\<close>

definition representable :: "rat \<Rightarrow> bool" where
  "representable q = (roundDouble q = Fin q)"

fun exactSums :: "rat \<Rightarrow> rat list \<Rightarrow> bool" where
  "exactSums a [] = True"
| "exactSums a (x # xs) = (representable (a + x) \<and> exactSums (a + x) xs)"

definition exactMean :: "rat list \<Rightarrow> bool" where
  "exactMean xs = (exactSums 0 xs \<and> representable (mean xs))"

text \<open>
  Trend as the specification words it: the recent indicator is the mean of the last 5
  points, the baseline the mean of the 5 points ending \<open>period\<close> points before the most
  recent one (positions \<open>len - period - 5\<close> to \<open>len - period - 1\<close>).
\<close>

definition specTrend :: "rat list \<Rightarrow> nat \<Rightarrow> string" where
  "specTrend s period =
     (if length s < period + 5 then ''unknown''
      else let recent = mean (lastPoints 5 s);
               baseline = mean (take 5 (drop (length s - (period + 5)) s))
           in if recent > baseline * 1.02 then ''up''
              else if recent < baseline * 0.98 then ''down''
              else ''sideways'')"

section \<open>An engine for worked examples\<close>

text \<open>
  The examples need some engine. This one reads plain decimal literals (an optional
  sign, digits, an optional fraction; the empty string is 0) and rounds them to doubles;
  it writes \<open>toFixed\<close> from the exact value of the double, rounding half away from
  zero; an array throws when an object with a \<open>toString\<close> of its own is among its
  elements, at any depth; a call spreads up to 100000 arguments. Exponents, hexadecimal
  literals, the word Infinity, white space and the exponent notation that \<open>toFixed\<close>
  switches to at \<open>10^21\<close> are outside it.
\<close>

definition isDigit :: "char \<Rightarrow> bool" where
  "isDigit ch = (ch \<in> set ''0123456789'')"

definition digitsToNat :: "string \<Rightarrow> nat" where
  "digitsToNat ds = foldl (\<lambda>n ch. 10 * n + (of_char ch - 48)) 0 ds"

definition unsignedDecimal :: "string \<Rightarrow> jsnum" where
  "unsignedDecimal s =
     (let ip = takeWhile isDigit s; rest = dropWhile isDigit s
      in if rest = [] then (if ip = [] then NaN else roundDouble (of_nat (digitsToNat ip)))
         else if hd rest = CHR ''.'' \<and> list_all isDigit (tl rest) \<and> (ip \<noteq> [] \<or> tl rest \<noteq> [])
           then roundDouble (of_nat (digitsToNat ip)
                     + of_nat (digitsToNat (tl rest)) / 10 ^ length (tl rest))
         else NaN)"

definition sampleStringToNumber :: "string \<Rightarrow> jsnum" where
  "sampleStringToNumber s =
     (if s = [] then Fin 0
      else if hd s = CHR ''-'' then jsneg (unsignedDecimal (tl s))
      else if hd s = CHR ''+'' then unsignedDecimal (tl s)
      else unsignedDecimal s)"

text \<open>An array becomes the string of its elements joined by commas, then a number.\<close>

fun sampleArrayToNumber :: "jsval list \<Rightarrow> jsnum" where
  "sampleArrayToNumber [] = Fin 0"
| "sampleArrayToNumber [JNum x] = x"
| "sampleArrayToNumber [JStr s] = sampleStringToNumber s"
| "sampleArrayToNumber [JNull] = Fin 0"
| "sampleArrayToNumber [JUndefined] = Fin 0"
| "sampleArrayToNumber [JArr ys] = sampleArrayToNumber ys"
| "sampleArrayToNumber _ = NaN"

fun sampleArrayThrows :: "jsval list \<Rightarrow> bool" where
  "sampleArrayThrows [] = False"
| "sampleArrayThrows (JObj kvs # xs) = (''toString'' \<in> set (map fst kvs) \<or> sampleArrayThrows xs)"
| "sampleArrayThrows (JArr ys # xs) = (sampleArrayThrows ys \<or> sampleArrayThrows xs)"
| "sampleArrayThrows (x # xs) = sampleArrayThrows xs"

fun digitsOf :: "nat \<Rightarrow> string" where
  "digitsOf n =
     (if n < 10 then [''0123456789'' ! n]
      else digitsOf (n div 10) @ [''0123456789'' ! (n mod 10)])"

declare digitsOf.simps [simp del]

definition fixedDigits :: "rat \<Rightarrow> nat \<Rightarrow> string" where
  "fixedDigits q f =
     (let n = nat \<lfloor>\<bar>q\<bar> * 10 ^ f + 1 / 2\<rfloor>;
          ds = digitsOf n;
          padded = replicate (f + 1 - length ds) (CHR ''0'') @ ds;
          whole = take (length padded - f) padded;
          frac = drop (length padded - f) padded
      in (if q < 0 then ''-'' else []) @ whole @ (if f = 0 then [] else ''.'' @ frac))"

definition sampleToFixed :: "jsnum \<Rightarrow> nat \<Rightarrow> string" where
  "sampleToFixed x f =
     (case x of
        NaN \<Rightarrow> ''NaN''
      | PInf \<Rightarrow> ''Infinity''
      | NInf \<Rightarrow> ''-Infinity''
      | NegZero \<Rightarrow> fixedDigits 0 f
      | Fin q \<Rightarrow> fixedDigits q f)"

definition sampleEngine :: engine where
  "sampleEngine =
     \<lparr>stringToNumber = sampleStringToNumber,
      arrayToNumber = sampleArrayToNumber,
      arrayThrows = sampleArrayThrows,
      toFixed = sampleToFixed,
      spreadLimit = 100000\<rparr>"

section \<open>Observations and sample data\<close>

text \<open>The symbols for which a quote was requested, in the order of the requests.\<close>

fun quoteSymbols :: "request list \<Rightarrow> string list" where
  "quoteSymbols [] = []"
| "quoteSymbols (QuoteRequest s # rs) = s # quoteSymbols rs"
| "quoteSymbols (CandleRequest s # rs) = quoteSymbols rs"

text \<open>The symbol a request is about.\<close>

fun requestSymbol :: "request \<Rightarrow> string" where
  "requestSymbol (QuoteRequest s) = s"
| "requestSymbol (CandleRequest s) = s"

text \<open>A world that answers every symbol with the same quote and the same candles.\<close>

definition constWorld :: "jsval \<Rightarrow> candles option \<Rightarrow> world" where
  "constWorld quote candles =
     \<lparr>quoteGet = (\<lambda>symbol. Returned quote), candleGet = (\<lambda>symbol. Returned candles)\<rparr>"

text \<open>The same world at every position of a batch.\<close>

definition everyTime :: "world \<Rightarrow> nat \<Rightarrow> world" where
  "everyTime W i = W"

definition sampleQuote :: jsval where
  "sampleQuote =
     JObj [(''c'', JNum (Fin 50)), (''o'', JNum (Fin 49)), (''h'', JNum (Fin 51)),
           (''l'', JNum (Fin 48)), (''pc'', JNum (Fin 40))]"

definition sampleCandles :: "candles option" where
  "sampleCandles =
     Some \<lparr>candle_s = JStr ''ok'', candle_c = Some [Fin 100, Fin 90],
           candle_v = Some [Fin 1000, Fin 2000]\<rparr>"

text \<open>
  A world in which the symbol AAA has a quote and candles and the quote request for any
  other symbol throws, and a request for the universe AAA, BBB without conditions.
\<close>

definition sampleWorld :: world where
  "sampleWorld =
     \<lparr>quoteGet = (\<lambda>symbol. if symbol = ''AAA'' then Returned sampleQuote else Threw),
      candleGet = (\<lambda>symbol. Returned sampleCandles)\<rparr>"

definition sampleBody :: body where
  "sampleBody =
     \<lparr>b_action = JStr ''screen'', b_universe = Some [''AAA'', ''BBB''], b_conditions = None\<rparr>"

text \<open>A universe of 26 symbols, one more than the server screens, and a request for it.\<close>

definition letterUniverse :: "string list" where
  "letterUniverse =
     [''AAA'', ''BBB'', ''CCC'', ''DDD'', ''EEE'', ''FFF'', ''GGG'', ''HHH'', ''III'', ''JJJ'',
      ''KKK'', ''LLL'', ''MMM'', ''NNN'', ''OOO'', ''PPP'', ''QQQ'', ''RRR'', ''SSS'', ''TTT'',
      ''UUU'', ''VVV'', ''WWW'', ''XXX'', ''YYY'', ''ZZZ'']"

definition letterBody :: body where
  "letterBody =
     \<lparr>b_action = JStr ''screen'', b_universe = Some letterUniverse, b_conditions = None\<rparr>"

text \<open>
  Quotes for the edge cases: a null previous close, a negative current price, and no
  current price at all.
\<close>

definition quoteNoPrevious :: jsval where
  "quoteNoPrevious =
     JObj [(''c'', JNum (Fin 50)), (''o'', JNum (Fin 49)), (''h'', JNum (Fin 51)),
           (''l'', JNum (Fin 48)), (''pc'', JNull)]"

definition quoteNegative :: jsval where
  "quoteNegative =
     JObj [(''c'', JNum (Fin (- 5))), (''o'', JNum (Fin 49)), (''h'', JNum (Fin 51)),
           (''l'', JNum (Fin 48)), (''pc'', JNum (Fin 40))]"

definition quoteNoPrice :: jsval where
  "quoteNoPrice =
     JObj [(''o'', JNum (Fin 49)), (''h'', JNum (Fin 51)), (''l'', JNum (Fin 48)),
           (''pc'', JNum (Fin 40))]"

text \<open>
  A quote whose previous close does not convert to a number: the JSON text
  \<^verbatim>\<open>{"valueOf": 1, "toString": 2}\<close> parses to an object whose own \<open>valueOf\<close>
  and \<open>toString\<close> hide the inherited methods and are not functions.
\<close>

definition quoteUnconvertible :: jsval where
  "quoteUnconvertible =
     JObj [(''c'', JNum (Fin 50)), (''o'', JNum (Fin 49)), (''h'', JNum (Fin 51)),
           (''l'', JNum (Fin 48)),
           (''pc'', JObj [(''valueOf'', JNum (Fin 1)), (''toString'', JNum (Fin 2))])]"

text \<open>An engine that spreads at most one argument, for which the sample closes are too many.\<close>

definition narrowEngine :: engine where
  "narrowEngine = sampleEngine\<lparr>spreadLimit := 1\<rparr>"

text \<open>
  For \<open>server.js\<close>: a record with a given close and a null open, and an answer of
  Yahoo in which only AAA has a price. Last, a request for the universe AAA alone with
  one condition, that the previous close be greater than 0.
\<close>

definition pricedRecord :: "string \<Rightarrow> jsval \<Rightarrow> item" where
  "pricedRecord symbol price = [(''symbol'', JStr symbol), (''close'', price), (''open'', JNull)]"

definition sampleYahoo :: "string list \<Rightarrow> item list" where
  "sampleYahoo batch =
     map (\<lambda>symbol. pricedRecord symbol (if symbol = ''AAA'' then JNum (Fin 10) else JNull)) batch"

definition previousCloseBody :: body where
  "previousCloseBody =
     \<lparr>b_action = JStr ''screen'', b_universe = Some [''AAA''],
      b_conditions = Some [\<lparr>left = ''prevClose'', operation = ''greater'', right = JNum (Fin 0)\<rparr>]\<rparr>"

section \<open>Moving average and trend\<close>

lemma sliceLast_map: "sliceLast n (map f xs) = map f (sliceLast n xs)"
  by (simp add: sliceLast_def drop_map)

lemma sliceBetween_map: "sliceBetween a b (map f xs) = map f (sliceBetween a b xs)"
  by (simp add: sliceBetween_def Let_def take_map drop_map)

lemma sliceLast_lastPoints: "0 < n \<Longrightarrow> sliceLast n xs = lastPoints n xs"
  by (simp add: sliceLast_def lastPoints_def)

lemma lastPoints_map: "lastPoints n (map f xs) = map f (lastPoints n xs)"
  by (simp add: lastPoints_def drop_map)

lemma length_lastPoints: "n \<le> length xs \<Longrightarrow> length (lastPoints n xs) = n"
  by (simp add: lastPoints_def)

lemma lastPoints_all: "length xs \<le> n \<Longrightarrow> lastPoints n xs = xs"
  by (simp add: lastPoints_def)

lemma calculateSMA_short: "length s < p \<Longrightarrow> calculateSMA s p = None"
  by (simp add: calculateSMA_def)

text \<open>What \<open>calculateSMA\<close> computes on a series that is long enough.\<close>

lemma calculateSMA_computes:
  assumes "0 < p" and "p \<le> length s"
  shows "calculateSMA s p
           = Some (jsdiv (foldl jsadd (Fin 0) (lastPoints p s)) (Fin (of_nat p)))"
  using assms by (simp add: calculateSMA_def sliceLast_lastPoints)

text \<open>No addition rounds when every sum of a prefix is representable.\<close>

lemma foldl_jsadd_exact:
  "exactSums a xs \<Longrightarrow> foldl jsadd (Fin a) (map Fin xs) = Fin (a + sum_list xs)"
  by (induction xs arbitrary: a) (simp_all add: representable_def add.assoc)

text \<open>The quotient of a sum by a positive count, when the exact quotient is representable.\<close>

lemma jsdiv_exact:
  assumes "0 < n" and "representable (a / of_nat n)"
  shows "jsdiv (Fin a) (Fin (of_nat n)) = Fin (a / of_nat n)"
proof (cases "a = 0")
  case True
  with assms(1) show ?thesis by (simp add: jsdiv_def signedZero_def)
next
  case False
  with assms show ?thesis by (simp add: jsdiv_def representable_def)
qed

lemma calculateSMA_exact:
  assumes "0 < p" and "p \<le> length xs" and "exactMean (lastPoints p xs)"
  shows "calculateSMA (map Fin xs) p = Some (Fin (mean (lastPoints p xs)))"
proof -
  have len: "length (lastPoints p xs) = p"
    using assms(2) by (rule length_lastPoints)
  have "foldl jsadd (Fin 0) (lastPoints p (map Fin xs)) = Fin (sum_list (lastPoints p xs))"
    using assms(3) foldl_jsadd_exact [of 0 "lastPoints p xs"]
    by (simp add: exactMean_def lastPoints_map)
  moreover have "jsdiv (Fin (sum_list (lastPoints p xs))) (Fin (of_nat p))
                   = Fin (sum_list (lastPoints p xs) / of_nat p)"
    using assms(1,3) len by (intro jsdiv_exact) (simp_all add: exactMean_def mean_def)
  ultimately show ?thesis
    using assms(1,2) len
    by (simp add: calculateSMA_computes [of p "map Fin xs"] mean_def)
qed

text \<open>
  With period 0 the slice \<open>prices.slice(-0)\<close> is the whole series, and its sum is
  divided by zero. No call in the program passes 0: the periods are 5, 20, 50 and 200.
\<close>

lemma calculateSMA_period_zero:
  "calculateSMA prices 0 = Some (jsdiv (foldl jsadd (Fin 0) prices) (Fin 0))"
  by (simp add: calculateSMA_def sliceLast_def)

text \<open>
  C5, as amended. \<open>calculateSMA(s, p)\<close> is null when the series \<open>s\<close> has fewer than
  \<open>p\<close> elements. Otherwise, for a period of at least 1, it is the sum of the last \<open>p\<close>
  elements, added to 0 from left to right, divided by \<open>p\<close>, where every addition and
  the division round to the nearest double. It is the arithmetic mean of the last \<open>p\<close>
  elements when no step rounds, that is, when the sums of the prefixes of these elements
  and their mean are doubles; the series 10, 20, 30 with period 3 gives 20.
\<close>

theorem calculateSMA_rounded_mean:
  "(length s < p \<longrightarrow> calculateSMA s p = None) \<and>
   (0 < p \<and> p \<le> length s \<longrightarrow>
      calculateSMA s p
        = Some (jsdiv (foldl jsadd (Fin 0) (lastPoints p s)) (Fin (of_nat p)))) \<and>
   (0 < p \<and> p \<le> length xs \<and> exactMean (lastPoints p xs) \<longrightarrow>
      calculateSMA (map Fin xs) p = Some (Fin (mean (lastPoints p xs))))"
  using calculateSMA_short calculateSMA_computes calculateSMA_exact by blast

lemma exactMean_10_20_30: "exactMean [10, 20, 30]"
  by code_simp

theorem calculateSMA_rounded_mean_witness:
  "calculateSMA [Fin 10, Fin 20] 3 = None \<and>
   calculateSMA [Fin 10, Fin 20, Fin 30] 3
     = Some (jsdiv (foldl jsadd (Fin 0) [Fin 10, Fin 20, Fin 30]) (Fin 3)) \<and>
   exactMean [10, 20, 30] \<and>
   calculateSMA (map Fin [10, 20, 30]) 3 = Some (Fin 20)"
  using calculateSMA_rounded_mean [of "[Fin 10, Fin 20]" 3 "[10, 20, 30]"]
        calculateSMA_rounded_mean [of "[Fin 10, Fin 20, Fin 30]" 3 "[10, 20, 30]"]
        exactMean_10_20_30
  by (simp add: mean_def lastPoints_def)

text \<open>
  C5 as stated fails. The series of two values \<open>2^1023\<close> has the mean \<open>2^1023\<close>, a
  double, and \<open>calculateSMA\<close> with period 2 returns Infinity, the sum having
  overflowed. The series 1, 1, 2 has the mean 4/3, and period 3 gives the double next to
  it. For the doubles of 10.01, 10.02 and 10.03 the result is not even the double
  nearest to their mean. With period 0 the result is the sum of the whole series divided
  by zero: Infinity for the series 1 and -Infinity for the series -1, two series with the
  same last 0 elements.
\<close>

theorem calculateSMA_not_mean_counterexample:
  "calculateSMA [Fin (of_int (2 ^ 1023)), Fin (of_int (2 ^ 1023))] 2 = Some PInf \<and>
   mean [of_int (2 ^ 1023), of_int (2 ^ 1023)] = of_int (2 ^ 1023) \<and>
   representable (of_int (2 ^ 1023)) \<and>
   calculateSMA [Fin 1, Fin 1, Fin 2] 3 = Some (Fin (6004799503160661 / 4503599627370496)) \<and>
   mean [1, 1, 2] = 4 / 3 \<and>
   calculateSMA [Fin 1, Fin 1, Fin 2] 3 \<noteq> Some (Fin (mean [1, 1, 2])) \<and>
   calculateSMA [roundDouble 10.01, roundDouble 10.02, roundDouble 10.03] 3
     = Some (Fin (5640758533281547 / 562949953421312)) \<and>
   roundDouble (mean (map numValue [roundDouble 10.01, roundDouble 10.02, roundDouble 10.03]))
     = Fin (2820379266640773 / 281474976710656) \<and>
   calculateSMA [roundDouble 10.01, roundDouble 10.02, roundDouble 10.03] 3
     \<noteq> Some (roundDouble
               (mean (map numValue [roundDouble 10.01, roundDouble 10.02, roundDouble 10.03]))) \<and>
   calculateSMA [Fin 1] 0 = Some PInf \<and>
   calculateSMA [Fin (- 1)] 0 = Some NInf \<and>
   lastPoints 0 [1 :: rat] = lastPoints 0 [- 1]"
  by code_simp

lemma calculateTrend_unknown:
  "length prices < period + 5 \<Longrightarrow> calculateTrend prices period = ''unknown''"
  by (simp add: calculateTrend_def)

text \<open>
  The older window of \<open>calculateTrend\<close>: \<open>prices.slice(-(period + 5), -5)\<close> holds
  \<open>period\<close> points, and \<open>calculateSMA(..., 5)\<close> averages the last five of them, which
  are the five points just before the recent five, whatever the period.
\<close>

lemma olderMA_window:
  assumes "5 \<le> period" and "period + 5 \<le> length xs"
  shows "lastPoints 5 (sliceBetween (period + 5) 5 xs) = take 5 (drop (length xs - 10) xs)"
proof -
  have len: "length (sliceBetween (period + 5) 5 xs) = period"
    using assms by (simp add: sliceBetween_def Let_def)
  have "lastPoints 5 (sliceBetween (period + 5) 5 xs)
          = drop (period - 5) (take period (drop (length xs - (period + 5)) xs))"
    using assms len by (simp add: lastPoints_def) (simp add: sliceBetween_def Let_def)
  also have "\<dots> = take 5 (drop (period - 5) (drop (length xs - (period + 5)) xs))"
    using assms by (simp add: drop_take)
  also have "\<dots> = take 5 (drop (length xs - 10) xs)"
    using assms by simp
  finally show ?thesis .
qed

text \<open>An average over 5 points reads the last five points of its series only.\<close>

lemma calculateSMA_last_five:
  assumes "5 \<le> length ys"
  shows "calculateSMA ys 5 = calculateSMA (lastPoints 5 ys) 5"
proof -
  have "lastPoints 5 (lastPoints 5 ys) = lastPoints 5 ys"
    using assms by (simp add: lastPoints_all length_lastPoints)
  then show ?thesis
    using assms by (simp add: calculateSMA_computes length_lastPoints)
qed

lemma olderMA_code:
  assumes "5 \<le> period" and "period + 5 \<le> length prices"
  shows "calculateSMA (sliceBetween (period + 5) 5 prices) 5
           = calculateSMA (take 5 (drop (length prices - 10) prices)) 5"
proof -
  have "length (sliceBetween (period + 5) 5 prices) = period"
    using assms by (simp add: sliceBetween_def Let_def)
  with assms(1) have "calculateSMA (sliceBetween (period + 5) 5 prices) 5
          = calculateSMA (lastPoints 5 (sliceBetween (period + 5) 5 prices)) 5"
    by (intro calculateSMA_last_five) simp
  then show ?thesis
    using assms by (simp add: olderMA_window)
qed

text \<open>For a period below 5 the older window has fewer than five points: its average is null.\<close>

lemma olderMA_null:
  assumes "period < 5"
  shows "calculateSMA (sliceBetween (period + 5) 5 prices) 5 = None"
  using assms by (simp add: calculateSMA_def sliceBetween_def Let_def)

text \<open>
  What \<open>calculateTrend\<close> computes on a long enough series: the thresholds are strict,
  and the older average does not depend on the period.
\<close>

lemma calculateTrend_code_window:
  assumes "5 \<le> period" and "period + 5 \<le> length prices"
  shows "calculateTrend prices period =
           (let recentMA = calculateSMA (lastPoints 5 prices) 5;
                olderMA = calculateSMA (take 5 (drop (length prices - 10) prices)) 5
            in if jsgt (nullableToNumber recentMA)
                       (jsmul (nullableToNumber olderMA) (roundDouble 1.02)) then ''up''
               else if jslt (nullableToNumber recentMA)
                       (jsmul (nullableToNumber olderMA) (roundDouble 0.98)) then ''down''
               else ''sideways'')"
  using assms by (simp add: calculateTrend_def olderMA_code sliceLast_lastPoints)

text \<open>
  With a period below 5 (the weekly trend uses 4) the null older average counts as 0 in
  the comparisons: the result is decided by the sign of the recent average alone.
\<close>

lemma thresholds:
  "roundDouble 1.02 = Fin (2296835809958953 / 2251799813685248)"
  "roundDouble 0.98 = Fin (2206763817411543 / 2251799813685248)"
  by code_simp+

lemma calculateTrend_short_period:
  assumes "period < 5" and "period + 5 \<le> length prices"
  shows "calculateTrend prices period =
           (let recentMA = calculateSMA (lastPoints 5 prices) 5
            in if jsgt (nullableToNumber recentMA) (Fin 0) then ''up''
               else if jslt (nullableToNumber recentMA) (Fin 0) then ''down''
               else ''sideways'')"
  unfolding calculateTrend_def thresholds
  using assms
  by (simp add: olderMA_null sliceLast_lastPoints nullableToNumber_def jsmul_def
        signedZero_def cong: if_cong)

text \<open>
  C4. The claim: the trend is unknown below \<open>period + 5\<close> points, and otherwise compares
  the mean of the last 5 points with the mean of the 5 points ending \<open>period\<close> points
  before the most recent one, strictly against 1.02 and 0.98 times that baseline. The
  code departs from it in the baseline. On 15 points at 100 followed by 10 points at 200,
  with period 20, the baseline of the claim is 100 and the trend is up, while
  \<open>calculateTrend\<close> averages the points just before the last five, gets 200, and
  answers sideways. On 9 points at 1 with period 4 the claim gives sideways, while
  \<open>calculateTrend\<close> finds a null older average and answers up.
\<close>

theorem calculateTrend_baseline_divergence:
  "calculateTrend (map Fin (replicate 15 100 @ replicate 10 200)) 20 = ''sideways'' \<and>
   specTrend (replicate 15 100 @ replicate 10 200) 20 = ''up'' \<and>
   calculateTrend (map Fin (replicate 9 1)) 4 = ''up'' \<and>
   specTrend (replicate 9 1) 4 = ''sideways''"
  by code_simp

section \<open>Evaluating one condition\<close>

lemma evalCondition_absent:
  assumes "getField item (left c) = JUndefined \<or> getField item (left c) = JNull"
  shows "evalCondition E item c = (left c \<notin> set [''close'', ''open'', ''high'', ''low''])"
  using assms by (auto simp: evalCondition_def Let_def)

lemma evalConditionYahoo_absent:
  assumes "getField item (left c) = JUndefined \<or> getField item (left c) = JNull"
  shows "evalConditionYahoo E item c
           = (left c \<notin> set [''volume'', ''close'', ''week52High'', ''week52Low''])"
  using assms by (auto simp: evalConditionYahoo_def Let_def)

text \<open>
  C1, as amended. When the value looked up for the left field is undefined or null, the
  condition of the trend server fails for the field names close, open, high and low and
  passes for every other name; the condition of \<open>server.js\<close> fails for the field
  names volume, close, week52High and week52Low and passes for every other name, open,
  high and low included. On both servers a record with close null fails
  \<open>close greater 0\<close> and, having no marketCap, passes \<open>marketCap greater 0\<close>.
\<close>

theorem absent_field_policy:
  assumes "getField item (left c) = JUndefined \<or> getField item (left c) = JNull"
  shows "evalCondition E item c = (left c \<notin> set [''close'', ''open'', ''high'', ''low'']) \<and>
         evalConditionYahoo E item c
           = (left c \<notin> set [''volume'', ''close'', ''week52High'', ''week52Low''])"
  using assms evalCondition_absent evalConditionYahoo_absent by blast

theorem absent_field_policy_witness:
  "getField [(''symbol'', JStr ''AAA''), (''close'', JNull)] ''close'' = JNull \<and>
   \<not> evalCondition sampleEngine [(''symbol'', JStr ''AAA''), (''close'', JNull)]
        \<lparr>left = ''close'', operation = ''greater'', right = JNum (Fin 0)\<rparr> \<and>
   \<not> evalConditionYahoo sampleEngine [(''symbol'', JStr ''AAA''), (''close'', JNull)]
        \<lparr>left = ''close'', operation = ''greater'', right = JNum (Fin 0)\<rparr> \<and>
   getField [(''symbol'', JStr ''AAA''), (''close'', JNull)] ''marketCap'' = JUndefined \<and>
   evalCondition sampleEngine [(''symbol'', JStr ''AAA''), (''close'', JNull)]
        \<lparr>left = ''marketCap'', operation = ''greater'', right = JNum (Fin 0)\<rparr> \<and>
   evalConditionYahoo sampleEngine [(''symbol'', JStr ''AAA''), (''close'', JNull)]
        \<lparr>left = ''marketCap'', operation = ''greater'', right = JNum (Fin 0)\<rparr>"
  using absent_field_policy [of "[(''symbol'', JStr ''AAA''), (''close'', JNull)]"
          "\<lparr>left = ''close'', operation = ''greater'', right = JNum (Fin 0)\<rparr>" sampleEngine]
        absent_field_policy [of "[(''symbol'', JStr ''AAA''), (''close'', JNull)]"
          "\<lparr>left = ''marketCap'', operation = ''greater'', right = JNum (Fin 0)\<rparr>" sampleEngine]
  by (simp add: getField_def objectPrototype_def)

text \<open>
  C1 as stated fails on \<open>server.js\<close>: a record whose open is null passes
  \<open>open greater 0\<close>, and a record whose volume is null fails \<open>volume greater 0\<close>.
\<close>

theorem yahoo_open_volume_counterexample:
  "getField [(''symbol'', JStr ''AAA''), (''close'', JNum (Fin 10)), (''open'', JNull),
             (''volume'', JNull)] ''open'' = JNull \<and>
   evalConditionYahoo sampleEngine
     [(''symbol'', JStr ''AAA''), (''close'', JNum (Fin 10)), (''open'', JNull),
      (''volume'', JNull)]
     \<lparr>left = ''open'', operation = ''greater'', right = JNum (Fin 0)\<rparr> \<and>
   getField [(''symbol'', JStr ''AAA''), (''close'', JNum (Fin 10)), (''open'', JNull),
             (''volume'', JNull)] ''volume'' = JNull \<and>
   \<not> evalConditionYahoo sampleEngine
     [(''symbol'', JStr ''AAA''), (''close'', JNum (Fin 10)), (''open'', JNull),
      (''volume'', JNull)]
     \<lparr>left = ''volume'', operation = ''greater'', right = JNum (Fin 0)\<rparr>"
  by (simp add: evalConditionYahoo_def getField_def)

text \<open>
  C9. A condition whose operation is none of equal, greater, less, in and near, and whose
  left field has a value on the record that is neither undefined nor null, evaluates to
  true, on the trend server and in \<open>server.js\<close> alike.
\<close>

theorem unknown_operation_passes:
  assumes "operation c \<notin> set [''equal'', ''greater'', ''less'', ''in'', ''near'']"
    and "getField item (left c) \<noteq> JUndefined" and "getField item (left c) \<noteq> JNull"
  shows "evalCondition E item c \<and> evalConditionYahoo E item c"
  using assms by (simp add: evalCondition_def evalConditionYahoo_def Let_def)

theorem unknown_operation_passes_witness:
  "evalCondition sampleEngine [(''symbol'', JStr ''AAA''), (''close'', JNum (Fin 10))]
     \<lparr>left = ''close'', operation = ''between'', right = JNum (Fin 50)\<rparr> \<and>
   evalConditionYahoo sampleEngine [(''symbol'', JStr ''AAA''), (''close'', JNum (Fin 10))]
     \<lparr>left = ''close'', operation = ''between'', right = JNum (Fin 50)\<rparr>"
  using unknown_operation_passes
          [of "\<lparr>left = ''close'', operation = ''between'', right = JNum (Fin 50)\<rparr>"
              "[(''symbol'', JStr ''AAA''), (''close'', JNum (Fin 10))]" sampleEngine]
  by (simp add: getField_def)

section \<open>The records of the trend server under \<open>near\<close>\<close>

lemma trendRecord_keys:
  "map fst (trendRecord E symbol quote candles) =
     [''symbol'', ''close'', ''open'', ''high'', ''low'', ''prevClose'', ''change'',
      ''changePercent'', ''volume'', ''avgVolume'', ''volumeRatio'', ''volumeContraction'',
      ''week52High'', ''week52Low'', ''pctFrom52High'', ''pctFrom52Low'', ''nearWeek52High'',
      ''nearWeek52Low'', ''ma20'', ''ma50'', ''ma200'', ''aboveMA20'', ''aboveMA50'',
      ''aboveMA200'', ''dailyTrend'', ''weeklyTrend'', ''trendAlignment'', ''currency'',
      ''is_etf'', ''tradable_on_t212_cfd'', ''name'']"
  by (simp add: trendRecord_def Let_def)

lemma getField_not_key:
  assumes "k \<notin> set (map fst obj)" and "objectPrototype k = None"
  shows "getField obj k = JUndefined"
proof -
  have "map_of obj k = None" using assms(1) by (simp add: map_of_eq_None_iff)
  then show ?thesis using assms(2) by (simp add: getField_def)
qed

text \<open>No record of the trend server has a field named 52_week_high or 52_week_low.\<close>

lemma trendRecord_no_52_week_field:
  "getField (trendRecord E symbol quote candles) ''52_week_high'' = JUndefined"
  "getField (trendRecord E symbol quote candles) ''52_week_low'' = JUndefined"
  by (rule getField_not_key; simp add: trendRecord_keys objectPrototype_def)+

text \<open>
  Hence a condition on 52_week_high or 52_week_low is settled by the missing-field test
  before its operation is looked at: it passes on every record, with any operation and
  whatever the proximity flags say.
\<close>

lemma near_52_week_always_passes:
  assumes "left c = ''52_week_high'' \<or> left c = ''52_week_low''"
  shows "evalCondition E (trendRecord E symbol quote candles) c"
  using assms trendRecord_no_52_week_field [of E symbol quote candles]
  by (auto simp: evalCondition_def Let_def)

text \<open>Under \<open>near\<close>, any other left field that has a value on the record fails.\<close>

lemma near_other_present_fails:
  assumes "operation c = ''near''"
    and "left c \<noteq> ''52_week_high''" and "left c \<noteq> ''52_week_low''"
    and "getField item (left c) \<noteq> JUndefined" and "getField item (left c) \<noteq> JNull"
  shows "\<not> evalCondition E item c"
  using assms by (simp add: evalCondition_def Let_def)

lemma sample_quote_fields:
  "truthy sampleQuote"
  "getProp sampleQuote ''c'' = JNum (Fin 50)"
  "getProp sampleQuote ''pc'' = JNum (Fin 40)"
  by (simp_all add: sampleQuote_def getField_def)

lemma sample_no_throw: "\<not> trendRecordThrows sampleEngine sampleQuote sampleCandles"
  by (simp add: trendRecordThrows_def sample_quote_fields sampleCandles_def usableCloses_def
        sampleEngine_def)

lemma trendRecord_nearWeek52High:
  "getField (trendRecord E symbol quote candles) ''nearWeek52High'' =
     (case usableCloses candles of
        None \<Rightarrow> JNull
      | Some cp \<Rightarrow>
          if numTruthy (mathMax cp)
          then JBool (jsge (toNumber E (getProp quote ''c''))
                           (jsmul (mathMax cp) (roundDouble 0.95)))
          else JNull)"
  by (simp add: trendRecord_def Let_def getField_def nullableTruthy_def nullableToNumber_def
        split: option.splits)

lemma sample_closes: "usableCloses sampleCandles = Some [Fin 100, Fin 90]"
  by (simp add: sampleCandles_def usableCloses_def)

lemma sample_max: "mathMax [Fin 100, Fin 90] = Fin 100"
  by code_simp

lemma sample_threshold: "jsmul (Fin 100) (roundDouble 0.95) = Fin 95"
  by code_simp

text \<open>
  C2. The claim: on a record produced with historical data, \<open>near\<close> on 52_week_high
  evaluates to the record's near-52-week-high flag. The code departs from it. For the
  quote with current price 50 and the closes 100 and 90, enrichment returns a record
  whose flag \<open>nearWeek52High\<close> is false (50 is below 95), and the condition
  \<open>52_week_high near\<close> passes on that record all the same.
\<close>

theorem near_high_ignores_flag:
  "fst (getStockDataWithTrend sampleEngine (constWorld sampleQuote sampleCandles) ''AAA'')
     = Some (trendRecord sampleEngine ''AAA'' sampleQuote sampleCandles) \<and>
   getField (trendRecord sampleEngine ''AAA'' sampleQuote sampleCandles) ''nearWeek52High''
     = JBool False \<and>
   evalCondition sampleEngine (trendRecord sampleEngine ''AAA'' sampleQuote sampleCandles)
     \<lparr>left = ''52_week_high'', operation = ''near'', right = JNull\<rparr>"
proof (intro conjI)
  show "fst (getStockDataWithTrend sampleEngine (constWorld sampleQuote sampleCandles) ''AAA'')
     = Some (trendRecord sampleEngine ''AAA'' sampleQuote sampleCandles)"
    by (simp add: getStockDataWithTrend_def constWorld_def noQuoteData_def sample_quote_fields
        sample_no_throw numStrictEquals_def)
  show "getField (trendRecord sampleEngine ''AAA'' sampleQuote sampleCandles) ''nearWeek52High''
     = JBool False"
    apply (simp only: trendRecord_nearWeek52High sample_closes option.case sample_max
        sample_threshold sample_quote_fields)
    apply (simp add: numTruthy_def jsge_def jsle_def)
    done
  show "evalCondition sampleEngine (trendRecord sampleEngine ''AAA'' sampleQuote sampleCandles)
     \<lparr>left = ''52_week_high'', operation = ''near'', right = JNull\<rparr>"
    by (simp add: near_52_week_always_passes)
qed

section \<open>The batch and the response of the trend server\<close>

lemma quoteSymbols_append: "quoteSymbols (xs @ ys) = quoteSymbols xs @ quoteSymbols ys"
  by (induction xs rule: quoteSymbols.induct) simp_all

lemma getStockDataWithTrend_quoteSymbols:
  "quoteSymbols (snd (getStockDataWithTrend E W symbol)) = [symbol]"
  by (simp add: getStockDataWithTrend_def split: outcome.split)

text \<open>
  The loop keeps, in order, the records of the positions at which enrichment returned
  one.
\<close>

lemma batchLoop_results:
  "fst (batchLoop E Ws symbols i acc) =
     fst acc @ List.map_filter (\<lambda>j. fst (getStockDataWithTrend E (Ws j) (symbols ! j)))
                 [i..<length symbols]"
proof (induction E Ws symbols i acc rule: batchLoop.induct)
  case (1 E Ws symbols i acc)
  show ?case
  proof (cases "i < length symbols")
    case False
    then show ?thesis by (simp add: batchLoop.simps [of E Ws symbols i acc] map_filter_simps)
  next
    case True
    obtain d sent where g: "getStockDataWithTrend E (Ws i) (symbols ! i) = (d, sent)"
      by (cases "getStockDataWithTrend E (Ws i) (symbols ! i)")
    show ?thesis
    proof (cases d)
      case None
      with True g "1.IH"(1) [of d sent] show ?thesis
        by (simp add: batchLoop.simps [of E Ws symbols i acc] upt_conv_Cons map_filter_simps)
    next
      case (Some r)
      with True g "1.IH"(2) [of d sent r] show ?thesis
        by (simp add: batchLoop.simps [of E Ws symbols i acc] upt_conv_Cons map_filter_simps)
    qed
  qed
qed

text \<open>The loop requests a quote for every symbol from its position on, once and in order.\<close>

lemma batchLoop_quoteSymbols:
  "quoteSymbols (snd (batchLoop E Ws symbols i acc)) = quoteSymbols (snd acc) @ drop i symbols"
proof (induction E Ws symbols i acc rule: batchLoop.induct)
  case (1 E Ws symbols i acc)
  show ?case
  proof (cases "i < length symbols")
    case False
    then show ?thesis by (simp add: batchLoop.simps [of E Ws symbols i acc])
  next
    case True
    obtain d sent where g: "getStockDataWithTrend E (Ws i) (symbols ! i) = (d, sent)"
      by (cases "getStockDataWithTrend E (Ws i) (symbols ! i)")
    have q: "quoteSymbols sent = [symbols ! i]"
      using getStockDataWithTrend_quoteSymbols [of E "Ws i" "symbols ! i"] g by simp
    have d: "drop i symbols = symbols ! i # drop (Suc i) symbols"
      using True by (simp add: Cons_nth_drop_Suc)
    show ?thesis
    proof (cases d)
      case None
      with True g q d "1.IH"(1) [of d sent] show ?thesis
        by (simp add: batchLoop.simps [of E Ws symbols i acc] quoteSymbols_append)
    next
      case (Some r)
      with True g q d "1.IH"(2) [of d sent r] show ?thesis
        by (simp add: batchLoop.simps [of E Ws symbols i acc] quoteSymbols_append)
    qed
  qed
qed

text \<open>Every request of the loop is about one of the symbols of the batch.\<close>

lemma getStockDataWithTrend_requestSymbols:
  "requestSymbol ` set (snd (getStockDataWithTrend E W symbol)) \<subseteq> {symbol}"
  by (simp add: getStockDataWithTrend_def split: outcome.split)

lemma batchLoop_requestSymbols:
  "requestSymbol ` set (snd (batchLoop E Ws symbols i acc))
     \<subseteq> requestSymbol ` set (snd acc) \<union> set symbols"
proof (induction E Ws symbols i acc rule: batchLoop.induct)
  case (1 E Ws symbols i acc)
  show ?case
  proof (cases "i < length symbols")
    case False
    then show ?thesis by (simp add: batchLoop.simps [of E Ws symbols i acc])
  next
    case True
    obtain d sent where g: "getStockDataWithTrend E (Ws i) (symbols ! i) = (d, sent)"
      by (cases "getStockDataWithTrend E (Ws i) (symbols ! i)")
    have "requestSymbol ` set sent \<subseteq> {symbols ! i}"
      using getStockDataWithTrend_requestSymbols [of E "Ws i" "symbols ! i"] g by simp
    with True have q: "requestSymbol ` set sent \<subseteq> set symbols"
      by (meson empty_subsetI insert_subset nth_mem subset_trans)
    show ?thesis
    proof (cases d)
      case None
      with True g q "1.IH"(1) [of d sent] show ?thesis
        by (simp add: batchLoop.simps [of E Ws symbols i acc] image_Un) blast
    next
      case (Some r)
      with True g q "1.IH"(2) [of d sent r] show ?thesis
        by (simp add: batchLoop.simps [of E Ws symbols i acc] image_Un) blast
    qed
  qed
qed

lemma getStockDataBatch_requestSymbols:
  "requestSymbol ` set (snd (getStockDataBatch E Ws symbols)) \<subseteq> set symbols"
  using batchLoop_requestSymbols [of E Ws symbols 0 "([], [])"]
  by (simp add: getStockDataBatch_def)

lemma getStockDataBatch_results:
  "fst (getStockDataBatch E Ws symbols) =
     List.map_filter (\<lambda>j. fst (getStockDataWithTrend E (Ws j) (symbols ! j)))
       [0..<length symbols]"
  by (simp add: getStockDataBatch_def batchLoop_results)

lemma getStockDataBatch_quoteSymbols:
  "quoteSymbols (snd (getStockDataBatch E Ws symbols)) = symbols"
  by (simp add: getStockDataBatch_def batchLoop_quoteSymbols)

lemma length_map_filter_le: "length (List.map_filter f xs) \<le> length xs"
  by (induction xs) (simp_all add: map_filter_simps split: option.split)

lemma set_map_filter: "set (List.map_filter f xs) = {y. \<exists>x \<in> set xs. f x = Some y}"
  by (induction xs) (auto simp: map_filter_simps split: option.splits)

lemma getStockDataBatch_length:
  "length (fst (getStockDataBatch E Ws symbols)) \<le> length symbols"
  using length_map_filter_le [of _ "[0..<length symbols]"]
  by (simp add: getStockDataBatch_results)

lemma length_applyConditions: "length (applyConditions E universe conditions) \<le> length universe"
  by (simp add: applyConditions_def)

lemma set_applyConditions: "set (applyConditions E universe conditions) \<subseteq> set universe"
  by (auto simp: applyConditions_def)

lemma screen_success:
  assumes "screen E Ws req = (Success r, sent)"
  obtains universe where "b_universe req = Some universe" and "universe \<noteq> []"
    and "r = screenResponse E universe (take 25 universe)
               (fst (getStockDataBatch E Ws (take 25 universe))) (b_conditions req)"
    and "sent = snd (getStockDataBatch E Ws (take 25 universe))"
  using assms
  by (auto simp: screen_def Let_def split: if_splits option.splits)

lemma sample_batch_results:
  "fst (getStockDataBatch sampleEngine (everyTime sampleWorld) [''AAA'', ''BBB''])
     = [trendRecord sampleEngine ''AAA'' sampleQuote sampleCandles]"
  by (simp add: getStockDataBatch_results map_filter_simps upt_conv_Cons everyTime_def
      getStockDataWithTrend_def sampleWorld_def noQuoteData_def sample_quote_fields
      sample_no_throw numStrictEquals_def)

lemma sample_screen:
  "screen sampleEngine (everyTime sampleWorld) sampleBody =
     (Success (screenResponse sampleEngine [''AAA'', ''BBB''] [''AAA'', ''BBB'']
                 [trendRecord sampleEngine ''AAA'' sampleQuote sampleCandles] None),
      snd (getStockDataBatch sampleEngine (everyTime sampleWorld) [''AAA'', ''BBB'']))"
  by (simp add: screen_def sampleBody_def Let_def sample_batch_results)

lemma letter_screen:
  "screen sampleEngine (everyTime sampleWorld) letterBody =
     (Success (screenResponse sampleEngine letterUniverse (take 25 letterUniverse)
                 (fst (getStockDataBatch sampleEngine (everyTime sampleWorld)
                         (take 25 letterUniverse))) None),
      snd (getStockDataBatch sampleEngine (everyTime sampleWorld) (take 25 letterUniverse)))"
  by (simp add: screen_def letterBody_def Let_def) (simp add: letterUniverse_def)

text \<open>
  C10. In every successful response of the trend server, count is the length of the
  result list, and count \<open>\<le>\<close> valid_data \<open>\<le>\<close> screened_size \<open>\<le>\<close> universe_size.
\<close>

theorem response_counts_consistent:
  assumes "screen E Ws req = (Success r, sent)"
  shows "r_count r = length (r_results r) \<and> r_count r \<le> r_valid_data r \<and>
         r_valid_data r \<le> r_screened_size r \<and> r_screened_size r \<le> r_universe_size r"
proof -
  from assms obtain universe where
    r: "r = screenResponse E universe (take 25 universe)
               (fst (getStockDataBatch E Ws (take 25 universe))) (b_conditions req)"
    by (rule screen_success)
  have "length (fst (getStockDataBatch E Ws (take 25 universe))) \<le> length (take 25 universe)"
    by (rule getStockDataBatch_length)
  then show ?thesis
    using r length_applyConditions by (simp add: screenResponse_def Let_def)
qed

theorem response_counts_consistent_witness:
  "\<exists>r. fst (screen sampleEngine (everyTime sampleWorld) sampleBody) = Success r \<and>
       r_count r = 1 \<and> length (r_results r) = 1 \<and> r_valid_data r = 1 \<and>
       r_screened_size r = 2 \<and> r_universe_size r = 2"
proof -
  have "r_valid_data (screenResponse sampleEngine [''AAA'', ''BBB''] [''AAA'', ''BBB'']
                 [trendRecord sampleEngine ''AAA'' sampleQuote sampleCandles] None) = 1"
       "r_screened_size (screenResponse sampleEngine [''AAA'', ''BBB''] [''AAA'', ''BBB'']
                 [trendRecord sampleEngine ''AAA'' sampleQuote sampleCandles] None) = 2"
       "r_universe_size (screenResponse sampleEngine [''AAA'', ''BBB''] [''AAA'', ''BBB'']
                 [trendRecord sampleEngine ''AAA'' sampleQuote sampleCandles] None) = 2"
       "length (r_results (screenResponse sampleEngine [''AAA'', ''BBB''] [''AAA'', ''BBB'']
                 [trendRecord sampleEngine ''AAA'' sampleQuote sampleCandles] None)) = 1"
    by (simp_all add: screenResponse_def applyConditions_def)
  with response_counts_consistent [OF sample_screen] show ?thesis
    by (simp add: sample_screen)
qed

text \<open>
  C6. When the universe of a request has more than 25 symbols, quotes are requested for
  its first 25 symbols, once each and in order, no request is about any other symbol, and
  the response reports universe_size as the original length, screened_size as 25, and a
  truncation note; when the universe has at most 25 symbols the note is null.
\<close>

theorem truncation_to_25:
  assumes "b_universe req = Some universe" and "screen E Ws req = (Success r, sent)"
  shows "(25 < length universe \<longrightarrow>
            quoteSymbols sent = take 25 universe \<and>
            requestSymbol ` set sent \<subseteq> set (take 25 universe) \<and>
            r_universe_size r = length universe \<and>
            r_screened_size r = 25 \<and> r_note r \<noteq> None) \<and>
         (length universe \<le> 25 \<longrightarrow> r_note r = None)"
proof -
  from assms(2) obtain u where u: "b_universe req = Some u"
    and r: "r = screenResponse E u (take 25 u)
               (fst (getStockDataBatch E Ws (take 25 u))) (b_conditions req)"
    and s: "sent = snd (getStockDataBatch E Ws (take 25 u))"
    by (rule screen_success)
  from u assms(1) have "u = universe" by simp
  with r s show ?thesis
    by (simp add: screenResponse_def Let_def getStockDataBatch_quoteSymbols
          getStockDataBatch_requestSymbols)
qed

theorem truncation_to_25_witness:
  "length letterUniverse = 26 \<and>
   quoteSymbols (snd (screen sampleEngine (everyTime sampleWorld) letterBody))
     = take 25 letterUniverse \<and>
   requestSymbol ` set (snd (screen sampleEngine (everyTime sampleWorld) letterBody))
     \<subseteq> set (take 25 letterUniverse) \<and>
   last (take 25 letterUniverse) = ''YYY'' \<and>
   (\<exists>r. fst (screen sampleEngine (everyTime sampleWorld) letterBody) = Success r \<and>
        r_universe_size r = 26 \<and> r_screened_size r = 25 \<and> r_note r = Some truncationNote) \<and>
   (\<exists>r. fst (screen sampleEngine (everyTime sampleWorld) sampleBody) = Success r \<and>
        r_universe_size r = 2 \<and> r_screened_size r = 2 \<and> r_note r = None)"
proof -
  have u: "b_universe letterBody = Some letterUniverse" by (simp add: letterBody_def)
  have n: "length letterUniverse = 26" by (simp add: letterUniverse_def)
  have y: "last (take 25 letterUniverse) = ''YYY''" by (simp add: letterUniverse_def)
  have u2: "b_universe sampleBody = Some [''AAA'', ''BBB'']" by (simp add: sampleBody_def)
  note big = truncation_to_25 [OF u letter_screen]
  note small = truncation_to_25 [OF u2 sample_screen]
  have "r_universe_size (screenResponse sampleEngine [''AAA'', ''BBB''] [''AAA'', ''BBB'']
                 [trendRecord sampleEngine ''AAA'' sampleQuote sampleCandles] None) = 2"
       "r_screened_size (screenResponse sampleEngine [''AAA'', ''BBB''] [''AAA'', ''BBB'']
                 [trendRecord sampleEngine ''AAA'' sampleQuote sampleCandles] None) = 2"
    by (simp_all add: screenResponse_def Let_def)
  with small
  have s: "\<exists>r. fst (screen sampleEngine (everyTime sampleWorld) sampleBody) = Success r \<and>
        r_universe_size r = 2 \<and> r_screened_size r = 2 \<and> r_note r = None"
    by (simp add: sample_screen)
  have "r_note (screenResponse sampleEngine letterUniverse (take 25 letterUniverse)
                 (fst (getStockDataBatch sampleEngine (everyTime sampleWorld)
                         (take 25 letterUniverse))) None) = Some truncationNote"
    by (simp add: screenResponse_def Let_def n)
  with big n
  have b: "quoteSymbols (snd (screen sampleEngine (everyTime sampleWorld) letterBody))
     = take 25 letterUniverse \<and>
   requestSymbol ` set (snd (screen sampleEngine (everyTime sampleWorld) letterBody))
     \<subseteq> set (take 25 letterUniverse) \<and>
   (\<exists>r. fst (screen sampleEngine (everyTime sampleWorld) letterBody) = Success r \<and>
        r_universe_size r = 26 \<and> r_screened_size r = 25 \<and> r_note r = Some truncationNote)"
    by (simp add: letter_screen)
  from n y s b show ?thesis by blast
qed

section \<open>Enrichment: the guard and the percent change\<close>

lemma strictEquals_JNull: "strictEquals v JNull = (v = JNull)"
  by (cases v) simp_all

text \<open>\<open>v === 0\<close> holds of the two zeros and of nothing else.\<close>

lemma isZero_iff: "isZero n = (n = Fin 0 \<or> n = NegZero)"
  by (cases n) simp_all

lemma strictEquals_zero:
  "strictEquals v (JNum (Fin 0)) = (v = JNum (Fin 0) \<or> v = JNum NegZero)"
  by (cases v) (auto simp: numStrictEquals_def isZero_iff)

lemma noQuoteData_iff:
  "noQuoteData quote =
     (\<not> truthy quote \<or> getProp quote ''c'' = JNum (Fin 0) \<or> getProp quote ''c'' = JNum NegZero
        \<or> getProp quote ''c'' = JNull)"
  by (auto simp: noQuoteData_def strictEquals_JNull strictEquals_zero)

lemma trendRecord_close:
  "getField (trendRecord E symbol quote candles) ''close'' = getProp quote ''c''"
  by (simp add: trendRecord_def Let_def getField_def)

lemma trendRecord_changePercent:
  "getField (trendRecord E symbol quote candles) ''changePercent'' =
     (if truthy (getProp quote ''pc'')
      then JStr (toFixed E
             (jsmul (jsdiv (jssub (toNumber E (getProp quote ''c''))
                                  (toNumber E (getProp quote ''pc'')))
                           (toNumber E (getProp quote ''pc'')))
                    (Fin 100)) 2)
      else JNum (Fin 0))"
  by (simp add: trendRecord_def Let_def getField_def)

lemma getStockDataWithTrend_Some:
  assumes "fst (getStockDataWithTrend E W symbol) = Some r"
  obtains quote candles where "quoteGet W symbol = Returned quote"
    and "\<not> noQuoteData quote" and "candleGet W symbol = Returned candles"
    and "\<not> trendRecordThrows E quote candles"
    and "r = trendRecord E symbol quote candles"
  using assms
  by (auto simp: getStockDataWithTrend_def split: outcome.splits if_splits)

lemma getStockDataFinnhub_Some:
  assumes "getStockDataFinnhub E W symbol = Some r"
  obtains quote where "quoteGet W symbol = Returned quote" and "\<not> noQuoteData quote"
    and "getField r ''changePercent'' =
           (if truthy (getProp quote ''pc'')
            then JStr (toFixed E
                   (jsmul (jsdiv (jssub (toNumber E (getProp quote ''c''))
                                        (toNumber E (getProp quote ''pc'')))
                                 (toNumber E (getProp quote ''pc'')))
                          (Fin 100)) 2)
            else JNum (Fin 0))"
    and "getField r ''close'' = getProp quote ''c''"
  using assms
  by (auto simp: getStockDataFinnhub_def Let_def getField_def split: outcome.splits if_splits)

lemma falsy_previous_close:
  assumes "v = JNull \<or> v = JUndefined"
  shows "\<not> truthy v"
  using assms by auto

lemma noPrevious_trend:
  "fst (getStockDataWithTrend sampleEngine (constWorld quoteNoPrevious None) ''AAA'')
     = Some (trendRecord sampleEngine ''AAA'' quoteNoPrevious None)"
  by (simp add: getStockDataWithTrend_def constWorld_def noQuoteData_def quoteNoPrevious_def
        getField_def numStrictEquals_def trendRecordThrows_def usableCloses_def)

text \<open>
  C7, as amended. When the previous close of the quote is null or undefined, the
  percent-change field of the enriched record is the number 0, on the trend server and
  on the quote-only server; the division is not evaluated.
\<close>

theorem changePercent_without_previous_close:
  assumes "quoteGet W symbol = Returned quote"
    and "getProp quote ''pc'' = JNull \<or> getProp quote ''pc'' = JUndefined"
  shows "(fst (getStockDataWithTrend E W symbol) = Some r \<longrightarrow>
            getField r ''changePercent'' = JNum (Fin 0)) \<and>
         (getStockDataFinnhub E W symbol = Some r' \<longrightarrow>
            getField r' ''changePercent'' = JNum (Fin 0))"
proof (intro conjI impI)
  assume "fst (getStockDataWithTrend E W symbol) = Some r"
  then obtain q candles where "quoteGet W symbol = Returned q"
    and "r = trendRecord E symbol q candles"
    by (rule getStockDataWithTrend_Some)
  with assms show "getField r ''changePercent'' = JNum (Fin 0)"
    using falsy_previous_close [of "getProp quote ''pc''"]
    by (simp add: trendRecord_changePercent)
next
  assume "getStockDataFinnhub E W symbol = Some r'"
  then obtain q where "quoteGet W symbol = Returned q"
    and "getField r' ''changePercent'' =
           (if truthy (getProp q ''pc'')
            then JStr (toFixed E
                   (jsmul (jsdiv (jssub (toNumber E (getProp q ''c''))
                                        (toNumber E (getProp q ''pc'')))
                                 (toNumber E (getProp q ''pc'')))
                          (Fin 100)) 2)
            else JNum (Fin 0))"
    by (rule getStockDataFinnhub_Some)
  with assms show "getField r' ''changePercent'' = JNum (Fin 0)"
    using falsy_previous_close [of "getProp quote ''pc''"] by simp
qed

theorem changePercent_without_previous_close_witness:
  "quoteGet (constWorld quoteNoPrevious None) ''AAA'' = Returned quoteNoPrevious \<and>
   getProp quoteNoPrevious ''pc'' = JNull \<and>
   (\<exists>r. fst (getStockDataWithTrend sampleEngine (constWorld quoteNoPrevious None) ''AAA'')
           = Some r \<and> getField r ''changePercent'' = JNum (Fin 0)) \<and>
   (\<exists>r. getStockDataFinnhub sampleEngine (constWorld quoteNoPrevious None) ''AAA'' = Some r \<and>
        getField r ''changePercent'' = JNum (Fin 0))"
proof -
  have q: "quoteGet (constWorld quoteNoPrevious None) ''AAA'' = Returned quoteNoPrevious"
    by (simp add: constWorld_def)
  have p: "getProp quoteNoPrevious ''pc'' = JNull"
    by (simp add: quoteNoPrevious_def getField_def)
  then have p': "getProp quoteNoPrevious ''pc'' = JNull
                   \<or> getProp quoteNoPrevious ''pc'' = JUndefined"
    by simp
  have n: "\<not> noQuoteData quoteNoPrevious"
    by (simp add: noQuoteData_def quoteNoPrevious_def getField_def numStrictEquals_def)
  have "\<not> conversionThrows sampleEngine (getProp quoteNoPrevious ''c'')"
    by (simp add: quoteNoPrevious_def getField_def)
  then obtain r' where
    f: "getStockDataFinnhub sampleEngine (constWorld quoteNoPrevious None) ''AAA'' = Some r'"
    using n p by (simp add: getStockDataFinnhub_def constWorld_def Let_def)
  from changePercent_without_previous_close [OF q p', of sampleEngine
         "trendRecord sampleEngine ''AAA'' quoteNoPrevious None" r'] noPrevious_trend f q p
  show ?thesis by simp
qed

text \<open>
  C7 as stated fails: for the quote with previous close null, the record of the trend
  server has the percent change 0, which is not null.
\<close>

theorem changePercent_not_null_counterexample:
  "getProp quoteNoPrevious ''pc'' = JNull \<and>
   fst (getStockDataWithTrend sampleEngine (constWorld quoteNoPrevious None) ''AAA'')
     = Some (trendRecord sampleEngine ''AAA'' quoteNoPrevious None) \<and>
   getField (trendRecord sampleEngine ''AAA'' quoteNoPrevious None) ''changePercent''
     = JNum (Fin 0) \<and>
   JNum (Fin 0) \<noteq> JNull"
  by (simp add: noPrevious_trend trendRecord_changePercent)
     (simp add: quoteNoPrevious_def getField_def)

text \<open>When exactly each enrichment returns no record.\<close>

lemma getStockDataWithTrend_None_iff:
  "fst (getStockDataWithTrend E W symbol) = None \<longleftrightarrow>
     (case quoteGet W symbol of
        Threw \<Rightarrow> True
      | Returned quote \<Rightarrow>
          noQuoteData quote \<or>
          (case candleGet W symbol of
             Threw \<Rightarrow> True
           | Returned candles \<Rightarrow> trendRecordThrows E quote candles))"
  by (simp add: getStockDataWithTrend_def split: outcome.split)

lemma getStockDataFinnhub_None_iff:
  "getStockDataFinnhub E W symbol = None \<longleftrightarrow>
     (case quoteGet W symbol of
        Threw \<Rightarrow> True
      | Returned quote \<Rightarrow>
          noQuoteData quote \<or> conversionThrows E (getProp quote ''c'')
            \<or> conversionThrows E (getProp quote ''pc''))"
  by (simp add: getStockDataFinnhub_def Let_def split: outcome.split)

lemma getStockDataWithTrend_record:
  assumes "quoteGet W symbol = Returned quote" and "\<not> noQuoteData quote"
    and "candleGet W symbol = Returned candles" and "\<not> trendRecordThrows E quote candles"
  shows "fst (getStockDataWithTrend E W symbol) = Some (trendRecord E symbol quote candles)"
  using assms by (simp add: getStockDataWithTrend_def)

lemma nonzero_price_is_data:
  assumes "getProp quote ''c'' = JNum n" and "\<not> isZero n"
  shows "\<not> noQuoteData quote"
proof -
  from assms(1) obtain kvs where "quote = JObj kvs" by (cases quote) simp_all
  with assms show ?thesis by (auto simp: noQuoteData_iff)
qed

lemma negative_trend:
  "fst (getStockDataWithTrend sampleEngine (constWorld quoteNegative None) ''AAA'')
     = Some (trendRecord sampleEngine ''AAA'' quoteNegative None)"
  by (simp add: getStockDataWithTrend_def constWorld_def noQuoteData_def quoteNegative_def
        getField_def numStrictEquals_def trendRecordThrows_def usableCloses_def)

lemma noPrice_trend:
  "fst (getStockDataWithTrend sampleEngine (constWorld quoteNoPrice None) ''AAA'')
     = Some (trendRecord sampleEngine ''AAA'' quoteNoPrice None)"
  by (simp add: getStockDataWithTrend_def constWorld_def noQuoteData_def quoteNoPrice_def
        getField_def objectPrototype_def trendRecordThrows_def usableCloses_def)

text \<open>
  C8, as amended. Enrichment returns no record when the quote request throws; when the
  quote body is falsy; when the current price is 0, negative zero or null; when the
  current price or the previous close does not convert to a number, so that
  \<open>close - quote.pc\<close> throws; and, on the trend server, when the candle request throws
  or the close prices are more than \<open>Math.max\<close> can be called with. A quote whose current
  price is a number other than zero, a negative one included, yields a record when none
  of the throws happens: on the quote-only server when the previous close converts; on
  the trend server when moreover the candle request returns and the close prices can be
  spread, and then the record is the one the return statement builds. The batch output
  holds, in order, exactly the records of the positions at which enrichment returned
  one.
\<close>

theorem no_usable_quote:
  "(quoteGet W symbol = Threw \<longrightarrow>
      fst (getStockDataWithTrend E W symbol) = None \<and> getStockDataFinnhub E W symbol = None) \<and>
   (quoteGet W symbol = Returned quote \<and>
      (\<not> truthy quote \<or> getProp quote ''c'' = JNum (Fin 0) \<or> getProp quote ''c'' = JNum NegZero
         \<or> getProp quote ''c'' = JNull) \<longrightarrow>
      fst (getStockDataWithTrend E W symbol) = None \<and> getStockDataFinnhub E W symbol = None) \<and>
   (quoteGet W symbol = Returned quote \<and>
      (conversionThrows E (getProp quote ''c'') \<or> conversionThrows E (getProp quote ''pc'')) \<longrightarrow>
      fst (getStockDataWithTrend E W symbol) = None \<and> getStockDataFinnhub E W symbol = None) \<and>
   (candleGet W symbol = Threw \<longrightarrow> fst (getStockDataWithTrend E W symbol) = None) \<and>
   (quoteGet W symbol = Returned quote \<and> candleGet W symbol = Returned candles \<and>
      usableCloses candles = Some cp \<and> spreadLimit E < length cp \<longrightarrow>
      fst (getStockDataWithTrend E W symbol) = None) \<and>
   (quoteGet W symbol = Returned quote \<and> getProp quote ''c'' = JNum n \<and> \<not> isZero n \<and>
      \<not> conversionThrows E (getProp quote ''pc'') \<longrightarrow>
      getStockDataFinnhub E W symbol \<noteq> None \<and>
      (candleGet W symbol = Returned candles \<and>
         (case usableCloses candles of None \<Rightarrow> True | Some cp \<Rightarrow> length cp \<le> spreadLimit E) \<longrightarrow>
         fst (getStockDataWithTrend E W symbol) = Some (trendRecord E symbol quote candles))) \<and>
   fst (getStockDataBatch E Ws symbols) =
     List.map_filter (\<lambda>j. fst (getStockDataWithTrend E (Ws j) (symbols ! j)))
       [0..<length symbols]"
proof (intro conjI impI)
  assume "quoteGet W symbol = Threw"
  then show "fst (getStockDataWithTrend E W symbol) = None"
    and "getStockDataFinnhub E W symbol = None"
    by (simp_all add: getStockDataWithTrend_None_iff getStockDataFinnhub_None_iff)
next
  assume a: "quoteGet W symbol = Returned quote \<and>
      (\<not> truthy quote \<or> getProp quote ''c'' = JNum (Fin 0) \<or> getProp quote ''c'' = JNum NegZero
         \<or> getProp quote ''c'' = JNull)"
  then have "noQuoteData quote" by (simp add: noQuoteData_iff)
  with a show "fst (getStockDataWithTrend E W symbol) = None"
    and "getStockDataFinnhub E W symbol = None"
    by (simp_all add: getStockDataWithTrend_None_iff getStockDataFinnhub_None_iff)
next
  assume a: "quoteGet W symbol = Returned quote \<and>
      (conversionThrows E (getProp quote ''c'') \<or> conversionThrows E (getProp quote ''pc''))"
  then have "trendRecordThrows E quote candles'" for candles'
    by (auto simp: trendRecordThrows_def)
  with a show "fst (getStockDataWithTrend E W symbol) = None"
    by (simp add: getStockDataWithTrend_None_iff split: outcome.split)
  from a show "getStockDataFinnhub E W symbol = None"
    by (auto simp: getStockDataFinnhub_None_iff)
next
  assume "candleGet W symbol = Threw"
  then show "fst (getStockDataWithTrend E W symbol) = None"
    by (simp add: getStockDataWithTrend_None_iff split: outcome.split)
next
  assume a: "quoteGet W symbol = Returned quote \<and> candleGet W symbol = Returned candles \<and>
      usableCloses candles = Some cp \<and> spreadLimit E < length cp"
  then have "trendRecordThrows E quote candles" by (simp add: trendRecordThrows_def)
  with a show "fst (getStockDataWithTrend E W symbol) = None"
    by (simp add: getStockDataWithTrend_None_iff)
next
  assume a: "quoteGet W symbol = Returned quote \<and> getProp quote ''c'' = JNum n \<and> \<not> isZero n \<and>
      \<not> conversionThrows E (getProp quote ''pc'')"
  then have d: "\<not> noQuoteData quote" by (simp add: nonzero_price_is_data)
  with a show "getStockDataFinnhub E W symbol \<noteq> None"
    by (simp add: getStockDataFinnhub_None_iff)
  show "fst (getStockDataWithTrend E W symbol) = Some (trendRecord E symbol quote candles)"
    if b: "candleGet W symbol = Returned candles \<and>
         (case usableCloses candles of None \<Rightarrow> True | Some cp \<Rightarrow> length cp \<le> spreadLimit E)"
  proof -
    from a b have "\<not> trendRecordThrows E quote candles"
      by (auto simp: trendRecordThrows_def split: option.splits)
    with a b d show ?thesis by (simp add: getStockDataWithTrend_record)
  qed
next
  show "fst (getStockDataBatch E Ws symbols) =
     List.map_filter (\<lambda>j. fst (getStockDataWithTrend E (Ws j) (symbols ! j)))
       [0..<length symbols]"
    by (rule getStockDataBatch_results)
qed

theorem no_usable_quote_witness:
  "fst (getStockDataWithTrend sampleEngine sampleWorld ''BBB'') = None \<and>
   getStockDataFinnhub sampleEngine sampleWorld ''BBB'' = None \<and>
   fst (getStockDataWithTrend sampleEngine (constWorld JNull None) ''AAA'') = None \<and>
   getStockDataFinnhub sampleEngine (constWorld JNull None) ''AAA'' = None \<and>
   fst (getStockDataWithTrend sampleEngine (constWorld quoteUnconvertible None) ''AAA'') = None \<and>
   getStockDataFinnhub sampleEngine (constWorld quoteUnconvertible None) ''AAA'' = None \<and>
   fst (getStockDataWithTrend sampleEngine
          \<lparr>quoteGet = (\<lambda>symbol. Returned sampleQuote), candleGet = (\<lambda>symbol. Threw)\<rparr> ''AAA'')
     = None \<and>
   fst (getStockDataWithTrend narrowEngine (constWorld sampleQuote sampleCandles) ''AAA'') = None \<and>
   getStockDataFinnhub sampleEngine (constWorld quoteNegative None) ''AAA'' \<noteq> None \<and>
   fst (getStockDataWithTrend sampleEngine (constWorld quoteNegative None) ''AAA'')
     = Some (trendRecord sampleEngine ''AAA'' quoteNegative None) \<and>
   fst (getStockDataBatch sampleEngine (everyTime sampleWorld) [''AAA'', ''BBB''])
     = [trendRecord sampleEngine ''AAA'' sampleQuote sampleCandles]"
proof -
  have t: "quoteGet sampleWorld ''BBB'' = Threw" by (simp add: sampleWorld_def)
  have n: "quoteGet (constWorld JNull None) ''AAA'' = Returned JNull \<and>
      (\<not> truthy JNull \<or> getProp JNull ''c'' = JNum (Fin 0) \<or> getProp JNull ''c'' = JNum NegZero
         \<or> getProp JNull ''c'' = JNull)"
    by (simp add: constWorld_def)
  have u: "quoteGet (constWorld quoteUnconvertible None) ''AAA'' = Returned quoteUnconvertible \<and>
      (conversionThrows sampleEngine (getProp quoteUnconvertible ''c'')
         \<or> conversionThrows sampleEngine (getProp quoteUnconvertible ''pc''))"
    by (simp add: constWorld_def quoteUnconvertible_def getField_def)
  have c: "candleGet \<lparr>quoteGet = (\<lambda>symbol. Returned sampleQuote), candleGet = (\<lambda>symbol. Threw)\<rparr>
             ''AAA'' = Threw"
    by simp
  have l: "quoteGet (constWorld sampleQuote sampleCandles) ''AAA'' = Returned sampleQuote \<and>
      candleGet (constWorld sampleQuote sampleCandles) ''AAA'' = Returned sampleCandles \<and>
      usableCloses sampleCandles = Some [Fin 100, Fin 90] \<and>
      spreadLimit narrowEngine < length [Fin 100, Fin 90]"
    by (simp add: constWorld_def sample_closes narrowEngine_def)
  have g: "quoteGet (constWorld quoteNegative None) ''AAA'' = Returned quoteNegative \<and>
      getProp quoteNegative ''c'' = JNum (Fin (- 5)) \<and> \<not> isZero (Fin (- 5)) \<and>
      \<not> conversionThrows sampleEngine (getProp quoteNegative ''pc'')"
    by (simp add: constWorld_def quoteNegative_def getField_def)
  have k: "candleGet (constWorld quoteNegative None) ''AAA'' = Returned None \<and>
      (case usableCloses None of None \<Rightarrow> True | Some cp \<Rightarrow> length cp \<le> spreadLimit sampleEngine)"
    by (simp add: constWorld_def usableCloses_def)
  from no_usable_quote [of sampleWorld "''BBB''" sampleEngine JNull None "[]" "Fin 0"
         "everyTime sampleWorld" "[''AAA'', ''BBB'']"] t
  have 1: "fst (getStockDataWithTrend sampleEngine sampleWorld ''BBB'') = None \<and>
           getStockDataFinnhub sampleEngine sampleWorld ''BBB'' = None \<and>
           fst (getStockDataBatch sampleEngine (everyTime sampleWorld) [''AAA'', ''BBB''])
             = [trendRecord sampleEngine ''AAA'' sampleQuote sampleCandles]"
    by (simp add: sample_batch_results)
  from no_usable_quote [of "constWorld JNull None" "''AAA''" sampleEngine JNull None "[]" "Fin 0"
         "everyTime sampleWorld" "[]"] n
  have 2: "fst (getStockDataWithTrend sampleEngine (constWorld JNull None) ''AAA'') = None \<and>
           getStockDataFinnhub sampleEngine (constWorld JNull None) ''AAA'' = None"
    by blast
  from no_usable_quote [of "constWorld quoteUnconvertible None" "''AAA''" sampleEngine
         quoteUnconvertible None "[]" "Fin 0" "everyTime sampleWorld" "[]"] u
  have 3: "fst (getStockDataWithTrend sampleEngine (constWorld quoteUnconvertible None) ''AAA'')
             = None \<and>
           getStockDataFinnhub sampleEngine (constWorld quoteUnconvertible None) ''AAA'' = None"
    by blast
  from no_usable_quote
         [of "\<lparr>quoteGet = (\<lambda>symbol. Returned sampleQuote), candleGet = (\<lambda>symbol. Threw)\<rparr>"
             "''AAA''" sampleEngine sampleQuote None "[]" "Fin 0" "everyTime sampleWorld" "[]"] c
  have 4: "fst (getStockDataWithTrend sampleEngine
                  \<lparr>quoteGet = (\<lambda>symbol. Returned sampleQuote), candleGet = (\<lambda>symbol. Threw)\<rparr>
                  ''AAA'') = None"
    by blast
  from no_usable_quote [of "constWorld sampleQuote sampleCandles" "''AAA''" narrowEngine
         sampleQuote sampleCandles "[Fin 100, Fin 90]" "Fin 0" "everyTime sampleWorld" "[]"] l
  have 5: "fst (getStockDataWithTrend narrowEngine (constWorld sampleQuote sampleCandles) ''AAA'')
             = None"
    by blast
  from no_usable_quote [of "constWorld quoteNegative None" "''AAA''" sampleEngine quoteNegative
         None "[]" "Fin (- 5)" "everyTime sampleWorld" "[]"] g k
  have 6: "getStockDataFinnhub sampleEngine (constWorld quoteNegative None) ''AAA'' \<noteq> None \<and>
   fst (getStockDataWithTrend sampleEngine (constWorld quoteNegative None) ''AAA'')
     = Some (trendRecord sampleEngine ''AAA'' quoteNegative None)"
    by blast
  from 1 2 3 4 5 6 show ?thesis by blast
qed

text \<open>
  C8 as stated fails: a quote with the current price -5 yields a record, with close -5,
  and the record is in the batch output.
\<close>

theorem negative_price_counterexample:
  "getProp quoteNegative ''c'' = JNum (Fin (- 5)) \<and>
   fst (getStockDataWithTrend sampleEngine (constWorld quoteNegative None) ''AAA'')
     = Some (trendRecord sampleEngine ''AAA'' quoteNegative None) \<and>
   getField (trendRecord sampleEngine ''AAA'' quoteNegative None) ''close'' = JNum (Fin (- 5)) \<and>
   fst (getStockDataBatch sampleEngine (everyTime (constWorld quoteNegative None)) [''AAA''])
     = [trendRecord sampleEngine ''AAA'' quoteNegative None]"
proof -
  have c: "getProp quoteNegative ''c'' = JNum (Fin (- 5))"
    by (simp add: quoteNegative_def getField_def)
  have "fst (getStockDataBatch sampleEngine (everyTime (constWorld quoteNegative None)) [''AAA''])
     = [trendRecord sampleEngine ''AAA'' quoteNegative None]"
    by (simp add: getStockDataBatch_results map_filter_simps everyTime_def negative_trend)
  with c negative_trend show ?thesis by (simp add: trendRecord_close)
qed

section \<open>Records that reach condition evaluation\<close>

lemma getStockDataWithTrend_close:
  assumes "fst (getStockDataWithTrend E W symbol) = Some r"
  shows "getField r ''close'' \<noteq> JNull"
proof -
  from assms obtain quote candles where "\<not> noQuoteData quote"
    and "r = trendRecord E symbol quote candles"
    by (rule getStockDataWithTrend_Some)
  then show ?thesis by (simp add: trendRecord_close noQuoteData_iff)
qed

lemma getStockDataBatch_close:
  assumes "x \<in> set (fst (getStockDataBatch E Ws symbols))"
  shows "getField x ''close'' \<noteq> JNull"
proof -
  from assms obtain j where "fst (getStockDataWithTrend E (Ws j) (symbols ! j)) = Some x"
    by (auto simp: getStockDataBatch_results set_map_filter)
  then show ?thesis by (rule getStockDataWithTrend_close)
qed

lemma validYahoo_close:
  assumes "x \<in> set (validYahoo allStockData)"
  shows "getField x ''close'' \<noteq> JNull"
  using assms by (simp add: validYahoo_def strictEquals_JNull)

lemma set_applyConditionsYahoo: "set (applyConditionsYahoo E universe conditions) \<subseteq> set universe"
  by (auto simp: applyConditionsYahoo_def)

lemma screenYahoo_success:
  assumes "screenYahoo E getStockData req = YSuccess y"
  obtains universe where "b_universe req = Some universe" and "universe \<noteq> []"
    and "y_results y = applyConditionsYahoo E (validYahoo (yahooLoop getStockData universe 0 []))
            (case b_conditions req of None \<Rightarrow> [] | Some cs \<Rightarrow> cs)"
  using assms
  by (auto simp: screenYahoo_def Let_def split: if_splits option.splits)

text \<open>
  The value null itself is never the close of a record that is evaluated or returned. In
  \<open>server.js\<close> the handler drops every record whose close is null before it applies
  the conditions. The handler of the trend server has no such step; its records have a
  close other than null because enrichment returns no record for a quote whose current
  price is null.
\<close>

lemma close_never_null:
  "(\<forall>x \<in> set (validYahoo allStockData). getField x ''close'' \<noteq> JNull) \<and>
   (screenYahoo E getStockData req = YSuccess y \<longrightarrow>
      (\<forall>x \<in> set (y_results y). getField x ''close'' \<noteq> JNull)) \<and>
   (\<forall>x \<in> set (fst (getStockDataBatch E Ws symbols)). getField x ''close'' \<noteq> JNull) \<and>
   (screen E Ws req' = (Success r, sent) \<longrightarrow>
      (\<forall>x \<in> set (r_results r). getField x ''close'' \<noteq> JNull))"
proof (intro conjI impI ballI)
  fix x assume "x \<in> set (validYahoo allStockData)"
  then show "getField x ''close'' \<noteq> JNull" by (rule validYahoo_close)
next
  fix x assume y: "screenYahoo E getStockData req = YSuccess y" and x: "x \<in> set (y_results y)"
  from y obtain universe where
    "y_results y = applyConditionsYahoo E (validYahoo (yahooLoop getStockData universe 0 []))
            (case b_conditions req of None \<Rightarrow> [] | Some cs \<Rightarrow> cs)"
    by (rule screenYahoo_success)
  with x set_applyConditionsYahoo
  have "x \<in> set (validYahoo (yahooLoop getStockData universe 0 []))" by fastforce
  then show "getField x ''close'' \<noteq> JNull" by (rule validYahoo_close)
next
  fix x assume "x \<in> set (fst (getStockDataBatch E Ws symbols))"
  then show "getField x ''close'' \<noteq> JNull" by (rule getStockDataBatch_close)
next
  fix x assume s: "screen E Ws req' = (Success r, sent)" and x: "x \<in> set (r_results r)"
  from s obtain universe where
    "r = screenResponse E universe (take 25 universe)
               (fst (getStockDataBatch E Ws (take 25 universe))) (b_conditions req')"
    by (rule screen_success)
  with x set_applyConditions
  have "x \<in> set (fst (getStockDataBatch E Ws (take 25 universe)))"
    by (fastforce simp: screenResponse_def Let_def)
  then show "getField x ''close'' \<noteq> JNull" by (rule getStockDataBatch_close)
qed

lemma sample_yahoo_all:
  "yahooLoop sampleYahoo [''AAA'', ''BBB''] 0 []
     = [pricedRecord ''AAA'' (JNum (Fin 10)), pricedRecord ''BBB'' JNull]"
  by (simp add: yahooLoop.simps sampleYahoo_def)

lemma sample_yahoo_valid:
  "validYahoo [pricedRecord ''AAA'' (JNum (Fin 10)), pricedRecord ''BBB'' JNull]
     = [pricedRecord ''AAA'' (JNum (Fin 10))]"
  by (simp add: validYahoo_def pricedRecord_def getField_def numStrictEquals_def)

lemma sample_yahoo_screen:
  "screenYahoo sampleEngine sampleYahoo sampleBody =
     YSuccess \<lparr>y_count = 1, y_universe_size = 2, y_valid_data = 1,
               y_results = [pricedRecord ''AAA'' (JNum (Fin 10))]\<rparr>"
  by (simp add: screenYahoo_def sampleBody_def Let_def sample_yahoo_all sample_yahoo_valid
        applyConditionsYahoo_def)

lemma close_never_null_sample:
  "validYahoo [pricedRecord ''AAA'' (JNum (Fin 10)), pricedRecord ''BBB'' JNull]
     = [pricedRecord ''AAA'' (JNum (Fin 10))] \<and>
   screenYahoo sampleEngine sampleYahoo sampleBody =
     YSuccess \<lparr>y_count = 1, y_universe_size = 2, y_valid_data = 1,
               y_results = [pricedRecord ''AAA'' (JNum (Fin 10))]\<rparr> \<and>
   getField (pricedRecord ''AAA'' (JNum (Fin 10))) ''close'' \<noteq> JNull \<and>
   fst (getStockDataBatch sampleEngine (everyTime sampleWorld) [''AAA'', ''BBB''])
     = [trendRecord sampleEngine ''AAA'' sampleQuote sampleCandles] \<and>
   (\<exists>r. fst (screen sampleEngine (everyTime sampleWorld) sampleBody) = Success r \<and>
        r_results r = [trendRecord sampleEngine ''AAA'' sampleQuote sampleCandles]) \<and>
   getField (trendRecord sampleEngine ''AAA'' sampleQuote sampleCandles) ''close'' \<noteq> JNull"
proof -
  note t = close_never_null
    [of "[pricedRecord ''AAA'' (JNum (Fin 10)), pricedRecord ''BBB'' JNull]"
        sampleEngine sampleYahoo sampleBody
        "\<lparr>y_count = 1, y_universe_size = 2, y_valid_data = 1,
          y_results = [pricedRecord ''AAA'' (JNum (Fin 10))]\<rparr>"
        "everyTime sampleWorld" "[''AAA'', ''BBB'']" sampleBody
        "screenResponse sampleEngine [''AAA'', ''BBB''] [''AAA'', ''BBB'']
           [trendRecord sampleEngine ''AAA'' sampleQuote sampleCandles] None"
        "snd (getStockDataBatch sampleEngine (everyTime sampleWorld) [''AAA'', ''BBB''])"]
  have res: "r_results (screenResponse sampleEngine [''AAA'', ''BBB''] [''AAA'', ''BBB'']
           [trendRecord sampleEngine ''AAA'' sampleQuote sampleCandles] None)
             = [trendRecord sampleEngine ''AAA'' sampleQuote sampleCandles]"
    by (simp add: screenResponse_def applyConditions_def)
  from t have "getField (pricedRecord ''AAA'' (JNum (Fin 10))) ''close'' \<noteq> JNull"
    by (simp add: sample_yahoo_valid)
  moreover from t have
    "getField (trendRecord sampleEngine ''AAA'' sampleQuote sampleCandles) ''close'' \<noteq> JNull"
    by (simp add: sample_batch_results)
  ultimately show ?thesis
    using res by (simp add: sample_yahoo_valid sample_yahoo_screen sample_batch_results sample_screen)
qed

lemma trendRecord_prevClose:
  "getField (trendRecord E symbol quote candles) ''prevClose'' = getProp quote ''pc''"
  by (simp add: trendRecord_def Let_def getField_def)

lemma noPrice_fields:
  "getProp quoteNoPrice ''c'' = JUndefined"
  "getProp quoteNoPrice ''pc'' = JNum (Fin 40)"
  by (simp_all add: quoteNoPrice_def getField_def objectPrototype_def)

text \<open>
  A quote without a current price passes the guard of the trend server; the guard
  \<^verbatim>\<open>!quote || !quote.c\<close> of the fallback in \<open>server.js\<close> rejects it.
\<close>

lemma missing_price_guards:
  "\<not> noQuoteData quoteNoPrice \<and> noQuoteDataFallback quoteNoPrice"
  by (simp add: noQuoteData_iff noQuoteDataFallback_def noPrice_fields)
     (simp add: quoteNoPrice_def)

text \<open>
  C3. The claim: every record passed to condition evaluation and every record of the
  result list has a non-null close, so that no condition is evaluated on a record that
  lacks price data. The trend server departs from it. Its guard
  \<^verbatim>\<open>quote.c === 0 || quote.c === null\<close> does not match a quote that has no field
  \<open>c\<close> at all: for such a quote, and an empty candle body, enrichment returns a record
  whose close is undefined, the condition on the previous close is evaluated on that
  record and passes, and the record is in the result list.
\<close>

theorem record_without_close_is_screened:
  "getProp quoteNoPrice ''c'' = JUndefined \<and>
   fst (getStockDataBatch sampleEngine (everyTime (constWorld quoteNoPrice None)) [''AAA''])
     = [trendRecord sampleEngine ''AAA'' quoteNoPrice None] \<and>
   getField (trendRecord sampleEngine ''AAA'' quoteNoPrice None) ''close'' = JUndefined \<and>
   evalCondition sampleEngine (trendRecord sampleEngine ''AAA'' quoteNoPrice None)
     \<lparr>left = ''prevClose'', operation = ''greater'', right = JNum (Fin 0)\<rparr> \<and>
   fst (screen sampleEngine (everyTime (constWorld quoteNoPrice None)) previousCloseBody)
     = Success \<lparr>r_count = 1, r_universe_size = 1, r_screened_size = 1, r_valid_data = 1,
                r_note = None,
                r_results = [trendRecord sampleEngine ''AAA'' quoteNoPrice None]\<rparr>"
proof (intro conjI)
  show "getProp quoteNoPrice ''c'' = JUndefined"
    by (rule noPrice_fields)
  show b: "fst (getStockDataBatch sampleEngine (everyTime (constWorld quoteNoPrice None)) [''AAA''])
          = [trendRecord sampleEngine ''AAA'' quoteNoPrice None]"
    by (simp add: getStockDataBatch_results map_filter_simps everyTime_def noPrice_trend)
  show "getField (trendRecord sampleEngine ''AAA'' quoteNoPrice None) ''close'' = JUndefined"
    by (simp add: trendRecord_close noPrice_fields)
  show e: "evalCondition sampleEngine (trendRecord sampleEngine ''AAA'' quoteNoPrice None)
     \<lparr>left = ''prevClose'', operation = ''greater'', right = JNum (Fin 0)\<rparr>"
    by (simp add: evalCondition_def trendRecord_prevClose noPrice_fields jsgt_def)
  from b e
  show "fst (screen sampleEngine (everyTime (constWorld quoteNoPrice None)) previousCloseBody)
     = Success \<lparr>r_count = 1, r_universe_size = 1, r_screened_size = 1, r_valid_data = 1,
                r_note = None,
                r_results = [trendRecord sampleEngine ''AAA'' quoteNoPrice None]\<rparr>"
    by (simp add: screen_def previousCloseBody_def Let_def screenResponse_def
          applyConditions_def)
qed

end
